theory Spec2Isabelle
  imports Complex_Main
begin

section \<open>Data model (core/models.py)\<close>

text \<open>
  Timestamps are microseconds since the epoch (the resolution of a Python datetime);
  \<open>timezone.now()\<close> is the argument \<open>now\<close> of every operation. Money
  (\<open>DecimalField\<close>, Python \<open>Decimal\<close>) is an exact rational number of ETB.
  Integer columns are Python's unbounded integers; the \<open>\<ge> 0\<close> CHECK constraint of a
  \<open>PositiveIntegerField\<close> is written out where a row is updated with a computed value.
  Primary keys (\<open>uuid.uuid4\<close>) are natural numbers drawn from a counter of the database.
  A foreign key to a \<open>BundleDefinition\<close> is held as the referenced row: no operation of
  the bundle services writes a definition. Free-text columns that no decision reads
  (descriptions, IP address, user agent, verification date) are left out. A table is
  the list of its rows in insertion order.
\<close>

definition day :: int where
  "day = 86400 * 1000000"

definition hour :: int where
  "hour = 3600 * 1000000"

record BundleDefinition =
  bd_id :: nat
  bd_exam_quota :: int
  bd_total_chat_quota :: int
  bd_daily_chat_limit :: int
  bd_search_quota :: int
  bd_has_unlimited_road_sign_quiz :: bool
  bd_validity_days :: int
  bd_price_etb :: rat
  bd_is_active :: bool
  bd_order :: int

definition is_unlimited_exams :: "BundleDefinition \<Rightarrow> bool" where
  "is_unlimited_exams d = (bd_exam_quota d = 0)"

definition is_unlimited_chats :: "BundleDefinition \<Rightarrow> bool" where
  "is_unlimited_chats d = (bd_total_chat_quota d = 0)"

definition is_unlimited_search :: "BundleDefinition \<Rightarrow> bool" where
  "is_unlimited_search d = (bd_search_quota d = 0)"

record UserBundle =
  ub_id :: nat
  ub_user :: nat
  ub_bundle_definition :: BundleDefinition
  ub_purchase_date :: int
  ub_expiry_date :: int
  ub_is_active :: bool
  exams_remaining :: int
  chats_remaining :: int
  search_remaining :: int
  total_chats_consumed :: int
  last_chat_reset :: int
  daily_chats_used :: int

datatype TransactionType = PURCHASE | CONSUME | REFUND | RESET | EXPIRY

text \<open>\<open>ResourceTransaction.ResourceType\<close>: the service compares its string argument
  against these four values and rejects every other string.\<close>

definition EXAM :: string where "EXAM = ''exam''"
definition CHAT :: string where "CHAT = ''chat''"
definition SEARCH :: string where "SEARCH = ''search''"
definition ROAD_SIGN :: string where "ROAD_SIGN = ''road_sign''"

record ResourceTransaction =
  rt_user :: nat
  rt_user_bundle :: nat
  rt_transaction_type :: TransactionType
  rt_resource_type :: "string option"
  rt_quantity :: int
  rt_exams_before :: "int option"
  rt_exams_after :: "int option"
  rt_chats_before :: "int option"
  rt_chats_after :: "int option"
  rt_search_before :: "int option"
  rt_search_after :: "int option"

datatype OrderStatus =
  PENDING | PAYMENT_VERIFIED | INSUFFICIENT_FUNDS | COMPLETED | CANCELLED | EXPIRED

record PaymentMethod =
  pm_id :: nat
  pm_code :: string
  pm_is_active :: bool

record BundleOrder =
  bo_id :: nat
  bo_user :: nat
  bo_bundle_definition :: BundleDefinition
  bo_order_amount :: rat
  bo_status :: OrderStatus
  bo_payment_method :: "PaymentMethod option"
  bo_reference_number :: string
  bo_verified_amount :: "rat option"
  bo_resulting_bundle :: "nat option"
  bo_expires_at :: int

datatype reason =
    CheapestAvailable rat
  | GoodBudgetUtilization
  | SlightlyOverBudget
  | WithinBudget rat

record OrderBundleSuggestion =
  obs_order :: nat
  obs_bundle_definition :: BundleDefinition
  obs_reason :: reason
  obs_order_score :: rat

datatype PaymentStatus = PS_PENDING | PS_COMPLETED | PS_FAILED | PS_REFUNDED | PS_CANCELLED

record BundlePurchase =
  bp_id :: nat
  bp_user :: nat
  bp_bundle_definition :: BundleDefinition
  bp_order :: nat
  bp_amount_paid :: rat
  bp_payment_status :: PaymentStatus
  bp_user_bundle :: "nat option"

text \<open>The tables. \<open>profiles\<close> maps a user to the \<open>active_bundle\<close> pointer of the
  user's \<open>UserProfile\<close>; a user without a profile has no entry.\<close>

record db =
  catalog :: "BundleDefinition list"
  payment_methods :: "PaymentMethod list"
  user_bundles :: "UserBundle list"
  profiles :: "(nat \<times> nat option) list"
  transactions :: "ResourceTransaction list"
  orders :: "BundleOrder list"
  suggestions :: "OrderBundleSuggestion list"
  purchases :: "BundlePurchase list"
  next_pk :: nat

definition get_bundle :: "db \<Rightarrow> nat \<Rightarrow> UserBundle option" where
  "get_bundle s pk = find (\<lambda>b. ub_id b = pk) (user_bundles s)"

definition update_bundle :: "nat \<Rightarrow> (UserBundle \<Rightarrow> UserBundle) \<Rightarrow> db \<Rightarrow> db" where
  "update_bundle pk f s =
     s\<lparr>user_bundles := map (\<lambda>b. if ub_id b = pk then f b else b) (user_bundles s)\<rparr>"

definition set_active_bundle :: "nat \<Rightarrow> nat option \<Rightarrow> db \<Rightarrow> db" where
  "set_active_bundle user ptr s =
     s\<lparr>profiles := map (\<lambda>(u, p). if u = user then (u, ptr) else (u, p)) (profiles s)\<rparr>"

subsection \<open>UserBundle properties (models.py:1003-1058)\<close>

definition is_expired :: "int \<Rightarrow> UserBundle \<Rightarrow> bool" where
  "is_expired now b = (ub_expiry_date b < now)"

definition can_use_exam :: "int \<Rightarrow> UserBundle \<Rightarrow> bool" where
  "can_use_exam now b =
     (if \<not> ub_is_active b then False
      else if is_expired now b then False
      else if is_unlimited_exams (ub_bundle_definition b) then True
      else exams_remaining b > 0)"

definition can_use_search :: "int \<Rightarrow> UserBundle \<Rightarrow> bool" where
  "can_use_search now b =
     (if \<not> ub_is_active b then False
      else if is_expired now b then False
      else if is_unlimited_search (ub_bundle_definition b) then True
      else search_remaining b > 0)"

text \<open>\<open>_reset_daily_chat_if_needed\<close>: \<open>timedelta.days\<close> is the floor of the difference
  in days. The method changes the object and saves the two columns of its row.\<close>

definition reset_daily_chat_if_needed :: "db \<Rightarrow> int \<Rightarrow> UserBundle \<Rightarrow> db \<times> UserBundle" where
  "reset_daily_chat_if_needed s now b =
     (if (now - last_chat_reset b) div day \<ge> 1
      then (update_bundle (ub_id b)
              (\<lambda>row. row\<lparr>daily_chats_used := 0, last_chat_reset := now\<rparr>) s,
            b\<lparr>daily_chats_used := 0, last_chat_reset := now\<rparr>)
      else (s, b))"

definition can_use_chat :: "db \<Rightarrow> int \<Rightarrow> UserBundle \<Rightarrow> db \<times> UserBundle \<times> bool" where
  "can_use_chat s now b =
     (if \<not> ub_is_active b then (s, b, False)
      else if is_expired now b then (s, b, False)
      else
        (case (if bd_daily_chat_limit (ub_bundle_definition b) > 0
               then reset_daily_chat_if_needed s now b else (s, b)) of
           (s1, b1) \<Rightarrow>
             if bd_daily_chat_limit (ub_bundle_definition b1) > 0
                \<and> daily_chats_used b1 \<ge> bd_daily_chat_limit (ub_bundle_definition b1)
             then (s1, b1, False)
             else if is_unlimited_chats (ub_bundle_definition b1) then (s1, b1, True)
             else (s1, b1, chats_remaining b1 > 0)))"

definition has_unlimited_road_sign_quiz :: "UserBundle \<Rightarrow> bool" where
  "has_unlimited_road_sign_quiz b = bd_has_unlimited_road_sign_quiz (ub_bundle_definition b)"

section \<open>BundleService (core/services.py:22-379)\<close>

text \<open>The service methods return \<open>(success, bundle, error_message)\<close>. A failure is
  \<open>Inl\<close> of the message and of the bundle returned with it; a success is \<open>Inr\<close>
  of the bundle. Each constructor of \<open>message\<close> is one message text of the source.\<close>

datatype message =
    NoActiveBundleFound
  | NoActiveBundle
  | ExamQuotaExhaustedOrBundleExpired
  | InsufficientExamAttempts int
  | ChatQuotaExhaustedOrDailyLimitReached
  | InsufficientChatMessages int
  | SearchQuotaExhaustedOrBundleExpired
  | InsufficientSearchQuota int
  | RoadSignQuizNotIncluded
  | InvalidResourceType string
  | BundleDefinitionNotFound
  | InternalError

type_synonym outcome = "message \<times> UserBundle option + UserBundle"

text \<open>\<open>UserProfile.has_active_bundle\<close> (models.py:565) on the profile's pointer.\<close>

definition has_active_bundle :: "db \<Rightarrow> int \<Rightarrow> nat option \<Rightarrow> bool" where
  "has_active_bundle s now ptr =
     (case ptr of
        None \<Rightarrow> False
      | Some pk \<Rightarrow>
          (case get_bundle s pk of
             None \<Rightarrow> False
           | Some b \<Rightarrow> ub_is_active b \<and> \<not> is_expired now b))"

definition get_active_bundle :: "db \<Rightarrow> int \<Rightarrow> nat \<Rightarrow> UserBundle option" where
  "get_active_bundle s now user =
     (case map_of (profiles s) user of
        None \<Rightarrow> None
      | Some ptr \<Rightarrow>
          (case ptr of
             None \<Rightarrow> None
           | Some pk \<Rightarrow> if has_active_bundle s now ptr then get_bundle s pk else None))"

text \<open>\<open>consume_resource\<close>, lines 53-84: the checks made before the transaction is
  opened. \<open>Granted\<close> is the road-sign branch, which returns success at once.\<close>

datatype admission =
    Reject message "UserBundle option"
  | Granted UserBundle
  | Proceed UserBundle

definition admission_check :: "db \<Rightarrow> int \<Rightarrow> nat \<Rightarrow> string \<Rightarrow> int \<Rightarrow> db \<times> admission" where
  "admission_check s now user resource_type quantity =
     (case get_active_bundle s now user of
        None \<Rightarrow> (s, Reject NoActiveBundleFound None)
      | Some bundle \<Rightarrow>
          if resource_type = EXAM then
            (if \<not> can_use_exam now bundle
             then (s, Reject ExamQuotaExhaustedOrBundleExpired (Some bundle))
             else if \<not> is_unlimited_exams (ub_bundle_definition bundle)
                     \<and> exams_remaining bundle < quantity
             then (s, Reject (InsufficientExamAttempts (exams_remaining bundle)) (Some bundle))
             else (s, Proceed bundle))
          else if resource_type = CHAT then
            (case can_use_chat s now bundle of
               (s1, b1, ok) \<Rightarrow>
                 if \<not> ok
                 then (s1, Reject ChatQuotaExhaustedOrDailyLimitReached (Some b1))
                 else if \<not> is_unlimited_chats (ub_bundle_definition b1)
                         \<and> chats_remaining b1 < quantity
                 then (s1, Reject (InsufficientChatMessages (chats_remaining b1)) (Some b1))
                 else (s1, Proceed b1))
          else if resource_type = SEARCH then
            (if \<not> can_use_search now bundle
             then (s, Reject SearchQuotaExhaustedOrBundleExpired (Some bundle))
             else if \<not> is_unlimited_search (ub_bundle_definition bundle)
                     \<and> search_remaining bundle < quantity
             then (s, Reject (InsufficientSearchQuota (search_remaining bundle)) (Some bundle))
             else (s, Proceed bundle))
          else if resource_type = ROAD_SIGN then
            (if \<not> has_unlimited_road_sign_quiz bundle
             then (s, Reject RoadSignQuizNotIncluded (Some bundle))
             else (s, Granted bundle))
          else (s, Reject (InvalidResourceType resource_type) (Some bundle)))"

text \<open>Lines 100-112: the new balances, computed by the database from the locked row
  (\<open>F('exams_remaining') - quantity\<close>).\<close>

definition apply_consumption :: "string \<Rightarrow> int \<Rightarrow> UserBundle \<Rightarrow> UserBundle" where
  "apply_consumption resource_type quantity bundle =
     (if resource_type = EXAM then
        (if \<not> is_unlimited_exams (ub_bundle_definition bundle)
         then bundle\<lparr>exams_remaining := exams_remaining bundle - quantity\<rparr>
         else bundle)
      else if resource_type = CHAT then
        (if \<not> is_unlimited_chats (ub_bundle_definition bundle)
         then bundle\<lparr>chats_remaining := chats_remaining bundle - quantity\<rparr>
         else bundle)
          \<lparr>total_chats_consumed := total_chats_consumed bundle + quantity,
           daily_chats_used := daily_chats_used bundle + quantity\<rparr>
      else if resource_type = SEARCH then
        (if \<not> is_unlimited_search (ub_bundle_definition bundle)
         then bundle\<lparr>search_remaining := search_remaining bundle - quantity\<rparr>
         else bundle)
      else bundle)"

text \<open>The five balance columns are \<open>PositiveIntegerField\<close>s (models.py:962-972): the
  UPDATE of a row fails with an IntegrityError when one of them would be negative.\<close>

definition positive_columns :: "UserBundle \<Rightarrow> bool" where
  "positive_columns b =
     (0 \<le> exams_remaining b \<and> 0 \<le> chats_remaining b \<and> 0 \<le> search_remaining b
      \<and> 0 \<le> total_chats_consumed b \<and> 0 \<le> daily_chats_used b)"

definition consume_transaction ::
  "nat \<Rightarrow> string \<Rightarrow> int \<Rightarrow> UserBundle \<Rightarrow> UserBundle \<Rightarrow> ResourceTransaction" where
  "consume_transaction user resource_type quantity before after =
     \<lparr>rt_user = user, rt_user_bundle = ub_id after, rt_transaction_type = CONSUME,
      rt_resource_type = Some resource_type, rt_quantity = - quantity,
      rt_exams_before = Some (exams_remaining before),
      rt_exams_after = Some (exams_remaining after),
      rt_chats_before = Some (chats_remaining before),
      rt_chats_after = Some (chats_remaining after),
      rt_search_before = Some (search_remaining before),
      rt_search_after = Some (search_remaining after)\<rparr>"

text \<open>Lines 86-146: the \<open>transaction.atomic()\<close> block. The row is read again under
  \<open>select_for_update\<close>, the balances are written, the transaction row is appended.
  Any exception rolls the block back and is reported as an internal error.\<close>

definition atomic_update :: "db \<Rightarrow> nat \<Rightarrow> string \<Rightarrow> int \<Rightarrow> UserBundle \<Rightarrow> db \<times> outcome" where
  "atomic_update s user resource_type quantity admitted =
     (case get_bundle s (ub_id admitted) of
        None \<Rightarrow> (s, Inl (InternalError, None))
      | Some bundle \<Rightarrow>
          (let after = apply_consumption resource_type quantity bundle in
           if \<not> positive_columns after then (s, Inl (InternalError, None))
           else
             ((update_bundle (ub_id bundle)
                 (\<lambda>row. row\<lparr>exams_remaining := exams_remaining after,
                            chats_remaining := chats_remaining after,
                            search_remaining := search_remaining after,
                            total_chats_consumed := total_chats_consumed after,
                            daily_chats_used := daily_chats_used after\<rparr>) s)
                \<lparr>transactions := transactions s
                    @ [consume_transaction user resource_type quantity bundle after]\<rparr>,
              Inr after)))"

definition consume_resource :: "db \<Rightarrow> int \<Rightarrow> nat \<Rightarrow> string \<Rightarrow> int \<Rightarrow> db \<times> outcome" where
  "consume_resource s now user resource_type quantity =
     (case admission_check s now user resource_type quantity of
        (s1, Reject m b) \<Rightarrow> (s1, Inl (m, b))
      | (s1, Granted b) \<Rightarrow> (s1, Inr b)
      | (s1, Proceed b) \<Rightarrow> atomic_update s1 user resource_type quantity b)"

definition check_resource_access :: "db \<Rightarrow> int \<Rightarrow> nat \<Rightarrow> string \<Rightarrow> db \<times> outcome" where
  "check_resource_access s now user resource_type =
     (case get_active_bundle s now user of
        None \<Rightarrow> (s, Inl (NoActiveBundle, None))
      | Some bundle \<Rightarrow>
          if resource_type = EXAM then
            (if \<not> can_use_exam now bundle
             then (s, Inl (ExamQuotaExhaustedOrBundleExpired, Some bundle))
             else (s, Inr bundle))
          else if resource_type = CHAT then
            (case can_use_chat s now bundle of
               (s1, b1, ok) \<Rightarrow>
                 if \<not> ok then (s1, Inl (ChatQuotaExhaustedOrDailyLimitReached, Some b1))
                 else (s1, Inr b1))
          else if resource_type = SEARCH then
            (if \<not> can_use_search now bundle
             then (s, Inl (SearchQuotaExhaustedOrBundleExpired, Some bundle))
             else (s, Inr bundle))
          else if resource_type = ROAD_SIGN then
            (if \<not> has_unlimited_road_sign_quiz bundle
             then (s, Inl (RoadSignQuizNotIncluded, Some bundle))
             else (s, Inr bundle))
          else (s, Inl (InvalidResourceType resource_type, Some bundle)))"

subsection \<open>Maintenance jobs (services.py:266-354)\<close>

text \<open>\<open>now.replace(hour=0, minute=0, second=0, microsecond=0)\<close> on the UTC time that
  \<open>timezone.now()\<close> returns.\<close>

definition midnight :: "int \<Rightarrow> int" where
  "midnight now = now - now mod day"

definition reset_transaction :: "UserBundle \<Rightarrow> ResourceTransaction" where
  "reset_transaction b =
     \<lparr>rt_user = ub_user b, rt_user_bundle = ub_id b, rt_transaction_type = RESET,
      rt_resource_type = Some CHAT, rt_quantity = 0,
      rt_exams_before = None, rt_exams_after = None,
      rt_chats_before = None, rt_chats_after = None,
      rt_search_before = None, rt_search_after = None\<rparr>"

definition reset_daily_chats :: "db \<Rightarrow> int \<Rightarrow> db \<times> int" where
  "reset_daily_chats s now =
     (let due = (\<lambda>b. ub_is_active b \<and> last_chat_reset b < midnight now);
          updated = length (filter due (user_bundles s));
          s1 = s\<lparr>user_bundles :=
                   map (\<lambda>b. if due b then b\<lparr>daily_chats_used := 0, last_chat_reset := now\<rparr>
                            else b) (user_bundles s)\<rparr>;
          reset_bundles =
            filter (\<lambda>b. ub_is_active b \<and> daily_chats_used b = 0 \<and> last_chat_reset b = now)
              (user_bundles s1)
      in (s1\<lparr>transactions := transactions s1 @ map reset_transaction reset_bundles\<rparr>,
          int updated))"

definition expiry_transaction :: "UserBundle \<Rightarrow> ResourceTransaction" where
  "expiry_transaction b =
     \<lparr>rt_user = ub_user b, rt_user_bundle = ub_id b, rt_transaction_type = EXPIRY,
      rt_resource_type = None, rt_quantity = 0,
      rt_exams_before = None, rt_exams_after = None,
      rt_chats_before = None, rt_chats_after = None,
      rt_search_before = None, rt_search_after = None\<rparr>"

text \<open>The body of the loop of \<open>expire_bundles\<close> (lines 324-347).\<close>

definition expire_one :: "UserBundle \<Rightarrow> db \<Rightarrow> db" where
  "expire_one bundle s =
     (let s1 = update_bundle (ub_id bundle) (\<lambda>row. row\<lparr>ub_is_active := False\<rparr>) s;
          s2 = s1\<lparr>transactions := transactions s1 @ [expiry_transaction bundle]\<rparr>
      in case map_of (profiles s2) (ub_user bundle) of
           None \<Rightarrow> s2
         | Some ptr \<Rightarrow>
             if ptr = Some (ub_id bundle) then set_active_bundle (ub_user bundle) None s2
             else s2)"

fun expire_each :: "UserBundle list \<Rightarrow> db \<Rightarrow> db" where
  "expire_each [] s = s"
| "expire_each (bundle # rest) s = expire_each rest (expire_one bundle s)"

definition expire_bundles :: "db \<Rightarrow> int \<Rightarrow> db \<times> int" where
  "expire_bundles s now =
     (let expired_bundles =
            filter (\<lambda>b. ub_is_active b \<and> ub_expiry_date b < now) (user_bundles s)
      in (expire_each expired_bundles s, int (length expired_bundles)))"

subsection \<open>Creating a UserBundle (models.py:936-1001)\<close>

text \<open>
  \<open>UserBundle.objects.create(**kwargs)\<close> builds the instance and calls \<open>save\<close>.
  The instance is built with the defaults of its fields: \<open>id\<close> is declared
  \<open>UUIDField(primary_key=True, default=uuid.uuid4)\<close> (models.py:941), so the primary
  key is already set when \<open>save\<close> runs; the three balances are declared \<open>default=0\<close>,
  \<open>last_chat_reset\<close> is declared \<open>default=timezone.now\<close>, and \<open>expiry_date\<close> has no
  default and is not nullable.
\<close>

record new_bundle =
  nb_pk :: "nat option"
  nb_user :: nat
  nb_bundle_definition :: BundleDefinition
  nb_expiry_date :: "int option"
  nb_exams_remaining :: int
  nb_chats_remaining :: int
  nb_search_remaining :: int
  nb_last_chat_reset :: int

definition UserBundle_init ::
  "nat \<Rightarrow> int \<Rightarrow> nat \<Rightarrow> BundleDefinition \<Rightarrow> int option \<Rightarrow> new_bundle" where
  "UserBundle_init uuid4 now user d expiry =
     \<lparr>nb_pk = Some uuid4, nb_user = user, nb_bundle_definition = d, nb_expiry_date = expiry,
      nb_exams_remaining = 0, nb_chats_remaining = 0, nb_search_remaining = 0,
      nb_last_chat_reset = now\<rparr>"

text \<open>\<open>UserBundle.save\<close>, lines 990-999: the part before \<open>super().save\<close>.\<close>

definition UserBundle_save :: "int \<Rightarrow> new_bundle \<Rightarrow> new_bundle" where
  "UserBundle_save now b =
     (if nb_pk b = None
      then b\<lparr>nb_expiry_date :=
                Some (now + bd_validity_days (nb_bundle_definition b) * day),
              nb_exams_remaining := bd_exam_quota (nb_bundle_definition b),
              nb_chats_remaining := bd_total_chat_quota (nb_bundle_definition b),
              nb_search_remaining := bd_search_quota (nb_bundle_definition b),
              nb_last_chat_reset := now\<rparr>
      else b)"

text \<open>The INSERT: \<open>None\<close> is the IntegrityError of a NULL \<open>expiry_date\<close>.\<close>

definition UserBundle_objects_create ::
  "db \<Rightarrow> int \<Rightarrow> nat \<Rightarrow> BundleDefinition \<Rightarrow> int option \<Rightarrow> (db \<times> UserBundle) option" where
  "UserBundle_objects_create s now user d expiry =
     (let b = UserBundle_save now (UserBundle_init (next_pk s) now user d expiry) in
      case (nb_pk b, nb_expiry_date b) of
        (Some pk, Some e) \<Rightarrow>
          (let row = \<lparr>ub_id = pk, ub_user = nb_user b,
                      ub_bundle_definition = nb_bundle_definition b,
                      ub_purchase_date = now, ub_expiry_date = e, ub_is_active = True,
                      exams_remaining = nb_exams_remaining b,
                      chats_remaining = nb_chats_remaining b,
                      search_remaining = nb_search_remaining b,
                      total_chats_consumed = 0,
                      last_chat_reset = nb_last_chat_reset b,
                      daily_chats_used = 0\<rparr>
           in Some (s\<lparr>user_bundles := user_bundles s @ [row], next_pk := Suc (next_pk s)\<rparr>,
                    row))
      | _ \<Rightarrow> None)"

definition purchase_transaction ::
  "nat \<Rightarrow> BundleDefinition \<Rightarrow> UserBundle \<Rightarrow> ResourceTransaction" where
  "purchase_transaction user d user_bundle =
     \<lparr>rt_user = user, rt_user_bundle = ub_id user_bundle, rt_transaction_type = PURCHASE,
      rt_resource_type = None, rt_quantity = bd_exam_quota d,
      rt_exams_before = Some 0, rt_exams_after = Some (exams_remaining user_bundle),
      rt_chats_before = Some 0, rt_chats_after = Some (chats_remaining user_bundle),
      rt_search_before = Some 0, rt_search_after = Some (search_remaining user_bundle)\<rparr>"

subsection \<open>BundlePurchase (models.py:1295-1402) and purchase_bundle (services.py:181-247)\<close>

text \<open>\<open>BundlePurchase.order\<close> is a \<open>OneToOneField\<close> without \<open>null=True\<close>
  (models.py:1315): the INSERT fails when no order is given or when the order already has
  a purchase. \<open>user_bundle\<close> is a nullable \<open>OneToOneField\<close>.\<close>

definition BundlePurchase_objects_create ::
  "db \<Rightarrow> nat \<Rightarrow> BundleDefinition \<Rightarrow> nat option \<Rightarrow> rat option \<Rightarrow> PaymentStatus \<Rightarrow> nat option
     \<Rightarrow> (db \<times> BundlePurchase) option" where
  "BundlePurchase_objects_create s user d order_pk amount st user_bundle =
     (case (order_pk, amount) of
        (Some opk, Some a) \<Rightarrow>
          if opk \<in> bp_order ` set (purchases s) then None
          else if user_bundle \<noteq> None \<and> user_bundle \<in> bp_user_bundle ` set (purchases s)
          then None
          else
            (let row = \<lparr>bp_id = next_pk s, bp_user = user, bp_bundle_definition = d,
                        bp_order = opk, bp_amount_paid = a, bp_payment_status = st,
                        bp_user_bundle = user_bundle\<rparr>
             in Some (s\<lparr>purchases := purchases s @ [row], next_pk := Suc (next_pk s)\<rparr>, row))
      | _ \<Rightarrow> None)"

definition save_purchase :: "BundlePurchase \<Rightarrow> db \<Rightarrow> db" where
  "save_purchase p s =
     s\<lparr>purchases := map (\<lambda>row. if bp_id row = bp_id p then p else row) (purchases s)\<rparr>"

text \<open>\<open>BundlePurchase.create_user_bundle\<close>: \<open>None\<close> is an exception, \<open>Some (s, None)\<close>
  the return value \<open>None\<close>.\<close>

definition create_user_bundle ::
  "db \<Rightarrow> int \<Rightarrow> BundlePurchase \<Rightarrow> (db \<times> BundlePurchase \<times> UserBundle option) option" where
  "create_user_bundle s now purchase =
     (if bp_payment_status purchase = PS_COMPLETED \<and> bp_user_bundle purchase = None
      then
        (case UserBundle_objects_create s now (bp_user purchase)
                (bp_bundle_definition purchase) None of
           None \<Rightarrow> None
         | Some (s1, user_bundle) \<Rightarrow>
             (let purchase1 = purchase\<lparr>bp_user_bundle := Some (ub_id user_bundle)\<rparr>
              in Some (save_purchase purchase1 s1, purchase1, Some user_bundle)))
      else Some (s, purchase, None))"

text \<open>\<open>payment_data\<close>: the two keys that \<open>purchase_bundle\<close> decides on. \<open>pd_amount\<close> is
  \<open>None\<close> when the key is absent (the price is then used), \<open>Some None\<close> when it holds
  \<open>None\<close>; \<open>pd_auto_complete\<close> is \<open>None\<close> when the key is absent.\<close>

record payment_data =
  pd_amount :: "rat option option"
  pd_auto_complete :: "bool option"

definition purchase_bundle ::
  "db \<Rightarrow> int \<Rightarrow> nat \<Rightarrow> nat \<Rightarrow> payment_data \<Rightarrow> db \<times> (message + BundlePurchase)" where
  "purchase_bundle s now user bundle_definition_id pd =
     (case find (\<lambda>d. bd_id d = bundle_definition_id \<and> bd_is_active d) (catalog s) of
        None \<Rightarrow> (s, Inl BundleDefinitionNotFound)
      | Some d \<Rightarrow>
          (case BundlePurchase_objects_create s user d None
                  (case pd_amount pd of None \<Rightarrow> Some (bd_price_etb d) | Some a \<Rightarrow> a)
                  PS_PENDING None of
             None \<Rightarrow> (s, Inl InternalError)
           | Some (s1, purchase) \<Rightarrow>
               if (case pd_auto_complete pd of None \<Rightarrow> True | Some f \<Rightarrow> f) then
                 (let purchase1 = purchase\<lparr>bp_payment_status := PS_COMPLETED\<rparr> in
                  case create_user_bundle (save_purchase purchase1 s1) now purchase1 of
                    None \<Rightarrow> (s, Inl InternalError)
                  | Some (s2, purchase2, None) \<Rightarrow> (s, Inl InternalError)
                  | Some (s2, purchase2, Some user_bundle) \<Rightarrow>
                      (case map_of (profiles s2) user of
                         None \<Rightarrow> (s, Inl InternalError)
                       | Some ptr \<Rightarrow>
                           ((set_active_bundle user (Some (ub_id user_bundle)) s2)
                              \<lparr>transactions := transactions s2
                                 @ [purchase_transaction user d user_bundle]\<rparr>,
                            Inr purchase2)))
               else (s1, Inr purchase)))"

section \<open>BundleOrderService (core/services.py:382-764)\<close>

definition save_order :: "BundleOrder \<Rightarrow> db \<Rightarrow> db" where
  "save_order order s =
     s\<lparr>orders := map (\<lambda>row. if bo_id row = bo_id order then order else row) (orders s)\<rparr>"

datatype order_error = DefinitionNotFoundOrInactive | PaymentMethodNotFoundOrInactive

text \<open>\<open>create_order\<close>; \<open>BundleOrder.save\<close> (models.py:1252) stamps the 24-hour deadline
  of an order that has none.\<close>

definition create_order :: "db \<Rightarrow> int \<Rightarrow> nat \<Rightarrow> nat \<Rightarrow> nat \<Rightarrow> db \<times> (order_error + BundleOrder)" where
  "create_order s now user bundle_definition_id payment_method_id =
     (case find (\<lambda>d. bd_id d = bundle_definition_id \<and> bd_is_active d) (catalog s) of
        None \<Rightarrow> (s, Inl DefinitionNotFoundOrInactive)
      | Some d \<Rightarrow>
          (case find (\<lambda>m. pm_id m = payment_method_id \<and> pm_is_active m) (payment_methods s) of
             None \<Rightarrow> (s, Inl PaymentMethodNotFoundOrInactive)
           | Some m \<Rightarrow>
               (let order = \<lparr>bo_id = next_pk s, bo_user = user, bo_bundle_definition = d,
                             bo_order_amount = bd_price_etb d, bo_status = PENDING,
                             bo_payment_method = Some m, bo_reference_number = [],
                             bo_verified_amount = None, bo_resulting_bundle = None,
                             bo_expires_at = now + 24 * hour\<rparr>
                in (s\<lparr>orders := orders s @ [order], next_pk := Suc (next_pk s)\<rparr>,
                    Inr order))))"

text \<open>\<open>complete_order\<close> re-raises every exception: \<open>None\<close> is an exception, with the
  atomic block rolled back.\<close>

definition complete_order :: "db \<Rightarrow> int \<Rightarrow> nat \<Rightarrow> (db \<times> UserBundle) option" where
  "complete_order s now order_id =
     (case find (\<lambda>r. bo_id r = order_id \<and> bo_status r = PAYMENT_VERIFIED) (orders s) of
        None \<Rightarrow> None
      | Some order \<Rightarrow>
          (case UserBundle_objects_create s now (bo_user order) (bo_bundle_definition order)
                  (Some (now + bd_validity_days (bo_bundle_definition order) * day)) of
             None \<Rightarrow> None
           | Some (s1, user_bundle) \<Rightarrow>
               (let order1 = order\<lparr>bo_resulting_bundle := Some (ub_id user_bundle),
                                   bo_status := COMPLETED\<rparr>;
                    s2 = save_order order1 s1
                in case map_of (profiles s2) (bo_user order1) of
                     None \<Rightarrow> None
                   | Some ptr \<Rightarrow>
                       (case BundlePurchase_objects_create
                               (set_active_bundle (bo_user order1) (Some (ub_id user_bundle)) s2)
                               (bo_user order1) (bo_bundle_definition order1) (Some (bo_id order1))
                               (bo_verified_amount order1) PS_COMPLETED
                               (Some (ub_id user_bundle)) of
                          None \<Rightarrow> None
                        | Some (s4, purchase) \<Rightarrow>
                            Some (s4\<lparr>transactions := transactions s4
                                       @ [purchase_transaction (bo_user order1)
                                            (bo_bundle_definition order1) user_bundle]\<rparr>,
                                  user_bundle)))))"

subsection \<open>Suggestions (services.py:607-704)\<close>

text \<open>The scores are Python floats; they are computed here in exact rational arithmetic.
  A division raises ZeroDivisionError exactly when the divisor, a \<open>Decimal\<close> turned into a
  float, is zero.\<close>

datatype py_error = ZeroDivisionError

record suggestion =
  sg_bundle :: BundleDefinition
  sg_reason :: reason
  sg_score :: rat
  sg_deficit :: "rat option"
  sg_remaining_budget :: "rat option"

text \<open>The body of the loop, lines 641-671.\<close>

definition score_bundle ::
  "rat \<Rightarrow> BundleDefinition option \<Rightarrow> BundleDefinition \<Rightarrow> py_error + suggestion" where
  "score_bundle budget current_bundle bundle =
     (if bd_price_etb bundle = 0 then Inl ZeroDivisionError
      else
        (let value_score =
               of_int (bd_exam_quota bundle + bd_total_chat_quota bundle + bd_search_quota bundle)
                 / bd_price_etb bundle;
             score1 = 0 + value_score * (4 / 10);
             score2 = (case current_bundle of
                         None \<Rightarrow> score1
                       | Some c \<Rightarrow> if bd_id bundle = bd_id c then score1 + 3 / 10 else score1)
         in if budget = 0 then Inl ZeroDivisionError
            else
              (let budget_utilization = bd_price_etb bundle / budget;
                   score3 = (if 8 / 10 \<le> budget_utilization \<and> budget_utilization \<le> 1
                             then score2 + 2 / 10 else score2);
                   reason = (if 8 / 10 \<le> budget_utilization \<and> budget_utilization \<le> 1
                             then GoodBudgetUtilization
                             else if budget_utilization > 1 then SlightlyOverBudget
                             else WithinBudget (budget - bd_price_etb bundle));
                   score4 = (if bd_order bundle \<ge> 50 then score3 + 1 / 10 else score3)
               in Inr \<lparr>sg_bundle = bundle, sg_reason = reason, sg_score = score4,
                       sg_deficit = None,
                       sg_remaining_budget = Some (budget - bd_price_etb bundle)\<rparr>)))"

fun score_all ::
  "rat \<Rightarrow> BundleDefinition option \<Rightarrow> BundleDefinition list \<Rightarrow> py_error + suggestion list" where
  "score_all budget current_bundle [] = Inr []"
| "score_all budget current_bundle (bundle # rest) =
     (case score_bundle budget current_bundle bundle of
        Inl e \<Rightarrow> Inl e
      | Inr g \<Rightarrow>
          (case score_all budget current_bundle rest of
             Inl e \<Rightarrow> Inl e
           | Inr gs \<Rightarrow> Inr (g # gs)))"

definition get_budget_suggestions ::
  "db \<Rightarrow> rat \<Rightarrow> BundleDefinition option \<Rightarrow> py_error + suggestion list" where
  "get_budget_suggestions s budget current_bundle =
     (let affordable_bundles =
            sort_key (\<lambda>d. - bd_price_etb d)
              (filter (\<lambda>d. bd_is_active d \<and> bd_price_etb d \<le> budget) (catalog s))
      in if affordable_bundles = [] then
           (case sort_key bd_price_etb (filter bd_is_active (catalog s)) of
              [] \<Rightarrow> Inr []
            | cheapest # _ \<Rightarrow>
                Inr [\<lparr>sg_bundle = cheapest,
                      sg_reason = CheapestAvailable (bd_price_etb cheapest - budget),
                      sg_score = 5 / 10,
                      sg_deficit = Some (bd_price_etb cheapest - budget),
                      sg_remaining_budget = None\<rparr>])
         else
           (case score_all budget current_bundle affordable_bundles of
              Inl e \<Rightarrow> Inl e
            | Inr gs \<Rightarrow> Inr (take 3 (sort_key (\<lambda>g. - sg_score g) gs))))"

text \<open>\<open>can_upgrade_existing_bundle\<close> returns \<open>False\<close> or a dictionary; the dictionary is
  built only when an upgrade exists (its \<open>additional_needed\<close> entry raises otherwise, and
  the bare \<open>except\<close> returns \<open>False\<close>). The result here is whether it is a dictionary.\<close>

definition can_upgrade_existing_bundle :: "db \<Rightarrow> int \<Rightarrow> nat \<Rightarrow> rat \<Rightarrow> bool" where
  "can_upgrade_existing_bundle s now user additional_amount =
     (case map_of (profiles s) user of
        None \<Rightarrow> False
      | Some None \<Rightarrow> False
      | Some (Some pk) \<Rightarrow>
          (case get_bundle s pk of
             None \<Rightarrow> False
           | Some b \<Rightarrow>
               if is_expired now b then False
               else
                 filter (\<lambda>d. bd_is_active d
                              \<and> bd_price_etb d
                                  \<le> bd_price_etb (ub_bundle_definition b) + additional_amount
                              \<and> bd_price_etb d > bd_price_etb (ub_bundle_definition b))
                   (catalog s) \<noteq> []))"

subsection \<open>The payment verifier (payments/verification.py)\<close>

record VerifyResult =
  vr_success :: bool
  vr_amount :: "rat option"

text \<open>\<open>verify_payment\<close> builds \<open>PaymentVerifier(mock_mode=True)\<close>, whose
  \<open>_mock_verify\<close> is this function.\<close>

definition mock_verify :: "string \<Rightarrow> string \<Rightarrow> VerifyResult" where
  "mock_verify method reference =
     (if take 4 reference = ''TEST''
      then \<lparr>vr_success = True, vr_amount = Some 500\<rparr>
      else \<lparr>vr_success = False, vr_amount = None\<rparr>)"

subsection \<open>verify_payment, accept_suggestion, cancel_order\<close>

datatype verify_outcome =
    VP_NotFound
  | VP_Expired
  | VP_VerificationFailed
  | VP_Error
  | VP_Completed BundleOrder UserBundle
  | VP_InsufficientFunds (vp_verified_amount: rat) (vp_required_amount: rat) (vp_deficit: rat)
      (vp_suggestions: "suggestion list") (vp_can_upgrade_existing: bool)

text \<open>The loop of lines 495-501. \<open>OrderBundleSuggestion\<close> is declared
  \<open>unique_together = ['order', 'bundle_definition']\<close>: a second row for the same pair
  raises, and the rows created before it stay (the loop is in no atomic block).\<close>

definition suggestion_row :: "nat \<Rightarrow> suggestion \<Rightarrow> OrderBundleSuggestion" where
  "suggestion_row order_pk g =
     \<lparr>obs_order = order_pk, obs_bundle_definition = sg_bundle g,
      obs_reason = sg_reason g, obs_order_score = sg_score g\<rparr>"

fun persist_suggestions :: "nat \<Rightarrow> suggestion list \<Rightarrow> db \<Rightarrow> db \<times> bool" where
  "persist_suggestions order_pk [] s = (s, True)"
| "persist_suggestions order_pk (g # gs) s =
     (if \<exists>row \<in> set (suggestions s).
           obs_order row = order_pk
           \<and> bd_id (obs_bundle_definition row) = bd_id (sg_bundle g)
      then (s, False)
      else persist_suggestions order_pk gs
             (s\<lparr>suggestions := suggestions s @ [suggestion_row order_pk g]\<rparr>))"

definition verify_payment_with ::
  "(string \<Rightarrow> string \<Rightarrow> VerifyResult) \<Rightarrow> db \<Rightarrow> int \<Rightarrow> nat \<Rightarrow> string \<Rightarrow> db \<times> verify_outcome" where
  "verify_payment_with verifier s now order_id reference_number =
     (case find (\<lambda>r. bo_id r = order_id \<and> bo_status r = PENDING) (orders s) of
        None \<Rightarrow> (s, VP_NotFound)
      | Some order \<Rightarrow>
          if bo_expires_at order < now
          then (save_order (order\<lparr>bo_status := EXPIRED\<rparr>) s, VP_Expired)
          else
            (case bo_payment_method order of
               None \<Rightarrow> (s, VP_Error)
             | Some m \<Rightarrow>
                 (let result = verifier (pm_code m) reference_number in
                  if \<not> vr_success result then (s, VP_VerificationFailed)
                  else
                    (case vr_amount result of
                       None \<Rightarrow> (s, VP_Error)
                     | Some amount \<Rightarrow>
                         (let order1 = order\<lparr>bo_reference_number := reference_number,
                                             bo_verified_amount := Some amount\<rparr>
                          in if amount \<ge> bo_order_amount order1 then
                               (let order2 = order1\<lparr>bo_status := PAYMENT_VERIFIED\<rparr>;
                                    s1 = save_order order2 s
                                in case complete_order s1 now (bo_id order2) of
                                     None \<Rightarrow> (s1, VP_Error)
                                   | Some (s2, user_bundle) \<Rightarrow>
                                       (s2, VP_Completed order2 user_bundle))
                             else
                               (let order2 = order1\<lparr>bo_status := INSUFFICIENT_FUNDS\<rparr>;
                                    s1 = save_order order2 s
                                in case get_budget_suggestions s1 amount
                                          (Some (bo_bundle_definition order2)) of
                                     Inl e \<Rightarrow> (s1, VP_Error)
                                   | Inr gs \<Rightarrow>
                                       (case persist_suggestions (bo_id order2) gs s1 of
                                          (s2, False) \<Rightarrow> (s2, VP_Error)
                                        | (s2, True) \<Rightarrow>
                                            (s2, VP_InsufficientFunds amount
                                                   (bo_order_amount order2)
                                                   (bo_order_amount order2 - amount) gs
                                                   (can_upgrade_existing_bundle s2 now
                                                      (bo_user order2) amount)))))))))"

definition verify_payment :: "db \<Rightarrow> int \<Rightarrow> nat \<Rightarrow> string \<Rightarrow> db \<times> verify_outcome" where
  "verify_payment = verify_payment_with mock_verify"

datatype accept_outcome = AS_Invalid | AS_InternalError | AS_Completed UserBundle

definition accept_suggestion :: "db \<Rightarrow> int \<Rightarrow> nat \<Rightarrow> nat \<Rightarrow> db \<times> accept_outcome" where
  "accept_suggestion s now order_id suggested_bundle_id =
     (case find (\<lambda>r. bo_id r = order_id) (orders s) of
        None \<Rightarrow> (s, AS_Invalid)
      | Some order \<Rightarrow>
          (case find (\<lambda>d. bd_id d = suggested_bundle_id) (catalog s) of
             None \<Rightarrow> (s, AS_Invalid)
           | Some suggested_bundle \<Rightarrow>
               (case find (\<lambda>row. obs_order row = bo_id order
                                  \<and> bd_id (obs_bundle_definition row) = bd_id suggested_bundle)
                       (suggestions s) of
                  None \<Rightarrow> (s, AS_Invalid)
                | Some suggestion \<Rightarrow>
                    (let order1 = order\<lparr>bo_bundle_definition := suggested_bundle,
                                        bo_order_amount := bd_price_etb suggested_bundle,
                                        bo_status := PAYMENT_VERIFIED\<rparr>
                     in case complete_order (save_order order1 s) now (bo_id order1) of
                          None \<Rightarrow> (s, AS_InternalError)
                        | Some (s2, user_bundle) \<Rightarrow> (s2, AS_Completed user_bundle)))))"

definition cancel_order :: "db \<Rightarrow> nat \<Rightarrow> db \<times> bool" where
  "cancel_order s order_id =
     (case find (\<lambda>r. bo_id r = order_id
                     \<and> (bo_status r = PENDING \<or> bo_status r = INSUFFICIENT_FUNDS)) (orders s) of
        None \<Rightarrow> (s, False)
      | Some order \<Rightarrow> (save_order (order\<lparr>bo_status := CANCELLED\<rparr>) s, True))"

section \<open>Scenarios\<close>

text \<open>A catalogue of two definitions, one user whose profile points to a bundle of the
  first definition, bought at time 0 and valid for 30 days.\<close>

definition basic :: BundleDefinition where
  "basic = \<lparr>bd_id = 1, bd_exam_quota = 5, bd_total_chat_quota = 20, bd_daily_chat_limit = 5,
            bd_search_quota = 10, bd_has_unlimited_road_sign_quiz = True,
            bd_validity_days = 30, bd_price_etb = 150, bd_is_active = True, bd_order = 1\<rparr>"

definition premium :: BundleDefinition where
  "premium = \<lparr>bd_id = 2, bd_exam_quota = 20, bd_total_chat_quota = 100,
              bd_daily_chat_limit = 10, bd_search_quota = 50,
              bd_has_unlimited_road_sign_quiz = True, bd_validity_days = 90,
              bd_price_etb = 300, bd_is_active = True, bd_order = 60\<rparr>"

definition telebirr :: PaymentMethod where
  "telebirr = \<lparr>pm_id = 1, pm_code = ''TELEBIRR'', pm_is_active = True\<rparr>"

definition a_bundle :: UserBundle where
  "a_bundle = \<lparr>ub_id = 10, ub_user = 7, ub_bundle_definition = basic, ub_purchase_date = 0,
               ub_expiry_date = 30 * day, ub_is_active = True, exams_remaining = 5,
               chats_remaining = 20, search_remaining = 10, total_chats_consumed = 0,
               last_chat_reset = 0, daily_chats_used = 3\<rparr>"

definition db0 :: db where
  "db0 = \<lparr>catalog = [basic, premium], payment_methods = [telebirr],
          user_bundles = [a_bundle], profiles = [(7, Some 10)], transactions = [],
          orders = [], suggestions = [], purchases = [], next_pk = 100\<rparr>"

text \<open>The two messages of \<open>consume_resource\<close> that report an expired bundle.\<close>

definition mentions_expiry :: "message \<Rightarrow> bool" where
  "mentions_expiry m =
     (m = ExamQuotaExhaustedOrBundleExpired \<or> m = SearchQuotaExhaustedOrBundleExpired)"

text \<open>A free definition and an expensive one; a catalogue with and without the free
  definition; the scenario's bundle with a single exam attempt left.\<close>

definition free_trial :: BundleDefinition where
  "free_trial = \<lparr>bd_id = 3, bd_exam_quota = 1, bd_total_chat_quota = 5,
                 bd_daily_chat_limit = 5, bd_search_quota = 5,
                 bd_has_unlimited_road_sign_quiz = False, bd_validity_days = 7,
                 bd_price_etb = 0, bd_is_active = True, bd_order = 0\<rparr>"

definition gold :: BundleDefinition where
  "gold = \<lparr>bd_id = 4, bd_exam_quota = 100, bd_total_chat_quota = 500,
           bd_daily_chat_limit = 50, bd_search_quota = 200,
           bd_has_unlimited_road_sign_quiz = True, bd_validity_days = 365,
           bd_price_etb = 1000, bd_is_active = True, bd_order = 70\<rparr>"

definition db_free :: db where
  "db_free = db0\<lparr>catalog := [free_trial, basic, premium, gold]\<rparr>"

definition db_shop :: db where
  "db_shop = db0\<lparr>catalog := [basic, premium, gold]\<rparr>"

definition last_attempt :: UserBundle where
  "last_attempt = a_bundle\<lparr>exams_remaining := 1\<rparr>"

definition db_last :: db where
  "db_last = db0\<lparr>user_bundles := [last_attempt]\<rparr>"

section \<open>The quota invariant\<close>

text \<open>A quota is bounded when it is positive (0 stands for unlimited, and the column is a
  \<open>PositiveIntegerField\<close>). \<open>within_quota\<close>: each remaining balance of a bounded
  resource lies between 0 and the quota of the bundle's definition.\<close>

definition within_quota :: "UserBundle \<Rightarrow> bool" where
  "within_quota b =
     ((0 < bd_exam_quota (ub_bundle_definition b)
         \<longrightarrow> 0 \<le> exams_remaining b \<and> exams_remaining b \<le> bd_exam_quota (ub_bundle_definition b))
      \<and> (0 < bd_total_chat_quota (ub_bundle_definition b)
         \<longrightarrow> 0 \<le> chats_remaining b
             \<and> chats_remaining b \<le> bd_total_chat_quota (ub_bundle_definition b))
      \<and> (0 < bd_search_quota (ub_bundle_definition b)
         \<longrightarrow> 0 \<le> search_remaining b
             \<and> search_remaining b \<le> bd_search_quota (ub_bundle_definition b)))"

definition ledger_invariant :: "db \<Rightarrow> bool" where
  "ledger_invariant s = (\<forall>b \<in> set (user_bundles s). within_quota b)"

text \<open>\<open>UserBundle.id\<close> is the primary key: no two rows share it, and the keys still to be
  drawn are fresh.\<close>

definition unique_bundle_keys :: "db \<Rightarrow> bool" where
  "unique_bundle_keys s =
     (distinct (map ub_id (user_bundles s)) \<and> (\<forall>b \<in> set (user_bundles s). ub_id b < next_pk s))"

section \<open>Properties\<close>

subsection \<open>Basic facts\<close>

lemma resource_type_distinct:
  "EXAM \<noteq> CHAT" "EXAM \<noteq> SEARCH" "EXAM \<noteq> ROAD_SIGN"
  "CHAT \<noteq> EXAM" "CHAT \<noteq> SEARCH" "CHAT \<noteq> ROAD_SIGN"
  "SEARCH \<noteq> EXAM" "SEARCH \<noteq> CHAT" "SEARCH \<noteq> ROAD_SIGN"
  "ROAD_SIGN \<noteq> EXAM" "ROAD_SIGN \<noteq> CHAT" "ROAD_SIGN \<noteq> SEARCH"
  by (simp_all add: EXAM_def CHAT_def SEARCH_def ROAD_SIGN_def)

lemma get_active_bundle_expired:
  assumes "map_of (profiles s) user = Some (Some pk)"
      and "get_bundle s pk = Some b"
      and "ub_expiry_date b < now"
  shows "get_active_bundle s now user = None"
  using assms by (simp add: get_active_bundle_def has_active_bundle_def is_expired_def)

lemma get_active_bundle_SomeD:
  assumes "get_active_bundle s now user = Some b"
  shows "ub_is_active b \<and> \<not> is_expired now b"
  using assms
  by (auto simp: get_active_bundle_def has_active_bundle_def split: option.splits if_splits)

lemma db0_bundle: "get_bundle db0 10 = Some a_bundle"
  by (simp add: get_bundle_def db0_def a_bundle_def)

lemma db0_active_bundle: "get_active_bundle db0 (2 * day) 7 = Some a_bundle"
  by (simp add: get_active_bundle_def has_active_bundle_def is_expired_def db0_def
      get_bundle_def a_bundle_def day_def)

subsection \<open>Consumption against an expired bundle\<close>

text \<open>
  C8, as the code has it. When the bundle that the user's profile points to is past its
  expiry date, \<open>get_active_bundle\<close> returns nothing, and \<open>consume_resource\<close> fails with
  the message "No active bundle found" for every resource type and every quantity,
  whatever the balances are; the database is unchanged.
\<close>

theorem consume_resource_expired:
  assumes "map_of (profiles s) user = Some (Some pk)"
      and "get_bundle s pk = Some b"
      and "ub_expiry_date b < now"
  shows "consume_resource s now user resource_type quantity
           = (s, Inl (NoActiveBundleFound, None))"
  using get_active_bundle_expired[OF assms]
  by (simp add: consume_resource_def admission_check_def)

theorem consume_resource_expired_witness:
  "consume_resource db0 (31 * day) 7 SEARCH 3 = (db0, Inl (NoActiveBundleFound, None))"
proof -
  have 1: "map_of (profiles db0) 7 = Some (Some 10)" by (simp add: db0_def)
  have 3: "ub_expiry_date a_bundle < 31 * day" by (simp add: a_bundle_def day_def)
  show ?thesis using consume_resource_expired[OF 1 db0_bundle 3] .
qed

text \<open>The bundle of the scenario on day 31, with 5 exam attempts left: the failure is
  "No active bundle found", which is neither of the messages that report an expiry.\<close>

theorem consume_resource_expired_counterexample:
  "ub_expiry_date a_bundle < 31 * day \<and>
   consume_resource db0 (31 * day) 7 EXAM 1 = (db0, Inl (NoActiveBundleFound, None)) \<and>
   \<not> mentions_expiry NoActiveBundleFound"
  by (simp add: consume_resource_def admission_check_def get_active_bundle_def
      has_active_bundle_def is_expired_def db0_def get_bundle_def a_bundle_def day_def
      mentions_expiry_def)

subsection \<open>What an access check writes\<close>

lemma check_resource_access_state:
  "fst (check_resource_access s now user resource_type) =
     (case get_active_bundle s now user of
        None \<Rightarrow> s
      | Some b \<Rightarrow>
          if resource_type = CHAT \<and> bd_daily_chat_limit (ub_bundle_definition b) > 0
             \<and> (now - last_chat_reset b) div day \<ge> 1
          then update_bundle (ub_id b)
                 (\<lambda>row. row\<lparr>daily_chats_used := 0, last_chat_reset := now\<rparr>) s
          else s)"
proof (cases "get_active_bundle s now user")
  case None
  then show ?thesis by (simp add: check_resource_access_def)
next
  case (Some b)
  from get_active_bundle_SomeD[OF Some] show ?thesis
    using Some
    by (simp add: check_resource_access_def can_use_chat_def reset_daily_chat_if_needed_def
        resource_type_distinct split: prod.splits)
qed

lemma update_bundle_daily_frame:
  fixes s :: db and pk :: nat and now :: int
  defines "s' \<equiv> update_bundle pk (\<lambda>row. row\<lparr>daily_chats_used := 0, last_chat_reset := now\<rparr>) s"
  shows "transactions s' = transactions s" "profiles s' = profiles s"
    "orders s' = orders s" "catalog s' = catalog s"
    "map exams_remaining (user_bundles s') = map exams_remaining (user_bundles s)"
    "map chats_remaining (user_bundles s') = map chats_remaining (user_bundles s)"
    "map search_remaining (user_bundles s') = map search_remaining (user_bundles s)"
    "map total_chats_consumed (user_bundles s') = map total_chats_consumed (user_bundles s)"
    "map ub_is_active (user_bundles s') = map ub_is_active (user_bundles s)"
    "map ub_expiry_date (user_bundles s') = map ub_expiry_date (user_bundles s)"
  by (simp_all add: s'_def update_bundle_def)

text \<open>
  C6, as the code has it. \<open>check_resource_access\<close> leaves the database as it is, with
  one exception: a chat check on the user's active, unexpired bundle whose definition has
  a daily chat limit and whose last reset is at least one day old sets
  \<open>daily_chats_used\<close> to 0 and \<open>last_chat_reset\<close> to the current time in that bundle's
  row. In every case the transaction log, the active-bundle pointers, the three remaining
  balances, \<open>total_chats_consumed\<close>, the active flags and the expiry dates are unchanged.
\<close>

theorem check_resource_access_frame:
  "(let s' = fst (check_resource_access s now user resource_type) in
     s' = (case get_active_bundle s now user of
             None \<Rightarrow> s
           | Some b \<Rightarrow>
               if resource_type = CHAT \<and> bd_daily_chat_limit (ub_bundle_definition b) > 0
                  \<and> (now - last_chat_reset b) div day \<ge> 1
               then update_bundle (ub_id b)
                      (\<lambda>row. row\<lparr>daily_chats_used := 0, last_chat_reset := now\<rparr>) s
               else s)
     \<and> transactions s' = transactions s
     \<and> profiles s' = profiles s
     \<and> map exams_remaining (user_bundles s') = map exams_remaining (user_bundles s)
     \<and> map chats_remaining (user_bundles s') = map chats_remaining (user_bundles s)
     \<and> map search_remaining (user_bundles s') = map search_remaining (user_bundles s)
     \<and> map total_chats_consumed (user_bundles s')
         = map total_chats_consumed (user_bundles s)
     \<and> map ub_is_active (user_bundles s') = map ub_is_active (user_bundles s)
     \<and> map ub_expiry_date (user_bundles s') = map ub_expiry_date (user_bundles s))"
  unfolding Let_def check_resource_access_state
  by (simp add: update_bundle_daily_frame split: option.splits)

theorem check_resource_access_frame_witness:
  "fst (check_resource_access db0 (2 * day) 7 CHAT)
     = update_bundle 10 (\<lambda>row. row\<lparr>daily_chats_used := 0, last_chat_reset := 2 * day\<rparr>) db0
   \<and> fst (check_resource_access db0 (2 * day) 7 EXAM) = db0"
proof -
  have d: "1 \<le> (2 * day - last_chat_reset a_bundle) div day"
    by (simp add: a_bundle_def day_def)
  have l: "0 < bd_daily_chat_limit (ub_bundle_definition a_bundle)"
    by (simp add: a_bundle_def basic_def)
  have i: "ub_id a_bundle = 10"
    by (simp add: a_bundle_def)
  note chat = check_resource_access_frame[of db0 "2 * day" 7 CHAT,
      unfolded Let_def db0_active_bundle]
  note exam = check_resource_access_frame[of db0 "2 * day" 7 EXAM,
      unfolded Let_def db0_active_bundle]
  from chat have "fst (check_resource_access db0 (2 * day) 7 CHAT)
     = update_bundle 10 (\<lambda>row. row\<lparr>daily_chats_used := 0, last_chat_reset := 2 * day\<rparr>) db0"
    by (simp add: d l i)
  moreover from exam have "fst (check_resource_access db0 (2 * day) 7 EXAM) = db0"
    by (simp add: resource_type_distinct)
  ultimately show ?thesis by simp
qed

text \<open>The scenario two days after the last reset, with 3 chats used that day: the check
  returns a database that differs from the one it was given.\<close>

theorem check_resource_access_counterexample:
  "fst (check_resource_access db0 (2 * day) 7 CHAT) \<noteq> db0"
  by (simp add: check_resource_access_def can_use_chat_def reset_daily_chat_if_needed_def
      get_active_bundle_def has_active_bundle_def is_expired_def db0_def get_bundle_def
      a_bundle_def day_def basic_def update_bundle_def is_unlimited_chats_def
      resource_type_distinct)

subsection \<open>The lazy daily reset and the transaction log\<close>

text \<open>
  C3, evaluated on the scenario. Two days after the last reset, with 3 chats used, a chat
  access check sets \<open>daily_chats_used\<close> to 0 and stamps \<open>last_chat_reset\<close>, and the
  transaction log stays empty: the lazy reset of \<open>_reset_daily_chat_if_needed\<close> commits
  a counter write without a \<open>ResourceTransaction\<close> row. The cron job
  \<open>reset_daily_chats\<close>, run on the same database instead, appends a \<open>RESET\<close> row for
  the same reset.
\<close>

theorem lazy_reset_without_transaction:
  "map daily_chats_used (user_bundles db0) = [3] \<and>
   map daily_chats_used (user_bundles (fst (check_resource_access db0 (2 * day) 7 CHAT))) = [0] \<and>
   map last_chat_reset (user_bundles (fst (check_resource_access db0 (2 * day) 7 CHAT)))
     = [2 * day] \<and>
   transactions (fst (check_resource_access db0 (2 * day) 7 CHAT)) = [] \<and>
   map rt_transaction_type (transactions (fst (reset_daily_chats db0 (2 * day)))) = [RESET]"
  by (simp add: check_resource_access_def can_use_chat_def reset_daily_chat_if_needed_def
      get_active_bundle_def has_active_bundle_def is_expired_def db0_def get_bundle_def
      a_bundle_def day_def basic_def update_bundle_def is_unlimited_chats_def
      resource_type_distinct reset_daily_chats_def midnight_def Let_def reset_transaction_def)

subsection \<open>The daily reset job run twice\<close>

lemma midnight_le: "midnight now \<le> now"
  by (simp add: midnight_def day_def)

lemma reset_daily_chats_noop:
  assumes "\<forall>b\<in>set (user_bundles s). \<not> (ub_is_active b \<and> last_chat_reset b < midnight now)"
      and "\<forall>b\<in>set (user_bundles s). last_chat_reset b \<noteq> now"
  shows "reset_daily_chats s now = (s, 0)"
proof -
  have m: "map (\<lambda>b. if ub_is_active b \<and> last_chat_reset b < midnight now
                    then b\<lparr>daily_chats_used := 0, last_chat_reset := now\<rparr> else b)
             (user_bundles s) = user_bundles s"
    using assms(1) by (intro map_idI) auto
  have f1: "filter (\<lambda>b. ub_is_active b \<and> last_chat_reset b < midnight now) (user_bundles s)
              = []"
    using assms(1) by (auto simp: filter_empty_conv)
  have f2: "filter (\<lambda>b. ub_is_active b \<and> daily_chats_used b = 0 \<and> last_chat_reset b = now)
              (user_bundles s) = []"
    using assms(2) by (auto simp: filter_empty_conv)
  show ?thesis
    by (simp add: reset_daily_chats_def Let_def m f1 f2)
qed

lemma user_bundles_after_reset:
  "user_bundles (fst (reset_daily_chats s now)) =
     map (\<lambda>b. if ub_is_active b \<and> last_chat_reset b < midnight now
              then b\<lparr>daily_chats_used := 0, last_chat_reset := now\<rparr> else b) (user_bundles s)"
  by (simp add: reset_daily_chats_def Let_def)

text \<open>
  C9. Let the job run at \<open>now1\<close> on a database in which no bundle's last reset lies in
  the future, and again at a later time \<open>now2\<close> of the same day. The second run returns
  the database of the first run unchanged (no counter, no reset timestamp, no transaction
  row) and reports 0 bundles updated.
\<close>

theorem reset_daily_chats_twice:
  assumes same_day: "midnight now2 = midnight now1"
      and later: "now1 < now2"
      and past: "\<forall>b\<in>set (user_bundles s). last_chat_reset b \<le> now1"
  shows "reset_daily_chats (fst (reset_daily_chats s now1)) now2
           = (fst (reset_daily_chats s now1), 0)"
proof (rule reset_daily_chats_noop)
  show "\<forall>b\<in>set (user_bundles (fst (reset_daily_chats s now1))).
          \<not> (ub_is_active b \<and> last_chat_reset b < midnight now2)"
    using midnight_le[of now1] by (auto simp: user_bundles_after_reset same_day)
  show "\<forall>b\<in>set (user_bundles (fst (reset_daily_chats s now1))). last_chat_reset b \<noteq> now2"
    using later past by (auto simp: user_bundles_after_reset)
qed

text \<open>On the scenario the first run resets the bundle and logs one row; the second run,
  one microsecond later, changes nothing.\<close>

theorem reset_daily_chats_twice_witness:
  "reset_daily_chats (fst (reset_daily_chats db0 (2 * day + 5))) (2 * day + 6)
     = (fst (reset_daily_chats db0 (2 * day + 5)), 0)
   \<and> transactions (fst (reset_daily_chats db0 (2 * day + 5)))
       = [reset_transaction (a_bundle\<lparr>daily_chats_used := 0, last_chat_reset := 2 * day + 5\<rparr>)]"
proof -
  have 1: "midnight (2 * day + 6) = midnight (2 * day + 5)"
    by (simp add: midnight_def day_def)
  have 2: "2 * day + 5 < 2 * day + (6::int)"
    by simp
  have 3: "\<forall>b\<in>set (user_bundles db0). last_chat_reset b \<le> 2 * day + 5"
    by (simp add: db0_def a_bundle_def day_def)
  have 4: "transactions (fst (reset_daily_chats db0 (2 * day + 5)))
       = [reset_transaction (a_bundle\<lparr>daily_chats_used := 0, last_chat_reset := 2 * day + 5\<rparr>)]"
    by (simp add: reset_daily_chats_def Let_def db0_def a_bundle_def midnight_def day_def)
  show ?thesis using reset_daily_chats_twice[OF 1 2 3] 4 by simp
qed

subsection \<open>Balances stay within quota\<close>

lemma update_bundle_invariant:
  assumes "ledger_invariant s"
      and "\<And>row. row \<in> set (user_bundles s) \<Longrightarrow> ub_id row = pk \<Longrightarrow> within_quota (f row)"
  shows "ledger_invariant (update_bundle pk f s)"
  using assms by (auto simp: ledger_invariant_def update_bundle_def)

lemma update_bundle_keys:
  assumes "unique_bundle_keys s" and "\<And>row. ub_id (f row) = ub_id row"
  shows "unique_bundle_keys (update_bundle pk f s)"
proof -
  have "ub_id \<circ> (\<lambda>b. if ub_id b = pk then f b else b) = ub_id"
    by (auto simp: fun_eq_iff assms(2))
  then show ?thesis
    using assms by (auto simp: unique_bundle_keys_def update_bundle_def)
qed

lemma get_bundle_SomeD:
  assumes "get_bundle s pk = Some b"
  shows "b \<in> set (user_bundles s) \<and> ub_id b = pk"
  using assms by (auto simp: get_bundle_def find_Some_iff)

lemma unique_row:
  assumes "unique_bundle_keys s" "b \<in> set (user_bundles s)" "row \<in> set (user_bundles s)"
      and "ub_id row = ub_id b"
  shows "row = b"
  using assms by (auto simp: unique_bundle_keys_def distinct_map inj_on_def)

lemma can_use_chat_state:
  "fst (can_use_chat s now b) = s \<or>
   fst (can_use_chat s now b)
     = update_bundle (ub_id b) (\<lambda>row. row\<lparr>daily_chats_used := 0, last_chat_reset := now\<rparr>) s"
  by (simp add: can_use_chat_def reset_daily_chat_if_needed_def split: prod.splits)

lemma daily_reset_invariant:
  assumes "ledger_invariant s" "unique_bundle_keys s"
  shows "ledger_invariant (update_bundle pk (\<lambda>row. row\<lparr>daily_chats_used := 0, last_chat_reset := now\<rparr>) s)
       \<and> unique_bundle_keys (update_bundle pk (\<lambda>row. row\<lparr>daily_chats_used := 0, last_chat_reset := now\<rparr>) s)"
proof
  show "ledger_invariant (update_bundle pk (\<lambda>row. row\<lparr>daily_chats_used := 0, last_chat_reset := now\<rparr>) s)"
    using assms(1) by (intro update_bundle_invariant) (auto simp: ledger_invariant_def within_quota_def)
  show "unique_bundle_keys (update_bundle pk (\<lambda>row. row\<lparr>daily_chats_used := 0, last_chat_reset := now\<rparr>) s)"
    using assms(2) by (intro update_bundle_keys) auto
qed

lemma admission_check_invariant:
  assumes "ledger_invariant s" "unique_bundle_keys s"
  shows "ledger_invariant (fst (admission_check s now user rt q))
       \<and> unique_bundle_keys (fst (admission_check s now user rt q))"
proof (cases "get_active_bundle s now user")
  case None
  then show ?thesis using assms by (simp add: admission_check_def)
next
  case (Some b)
  have "fst (admission_check s now user rt q) = s \<or> fst (admission_check s now user rt q) = fst (can_use_chat s now b)"
    using Some by (auto simp: admission_check_def split: prod.splits)
  with can_use_chat_state[of s now b] daily_reset_invariant[OF assms] assms
  show ?thesis by auto
qed

lemma apply_consumption_within_quota:
  assumes "within_quota b" "0 \<le> q" "positive_columns (apply_consumption rt q b)"
  shows "within_quota (b\<lparr>exams_remaining := exams_remaining (apply_consumption rt q b),
                          chats_remaining := chats_remaining (apply_consumption rt q b),
                          search_remaining := search_remaining (apply_consumption rt q b),
                          total_chats_consumed := total_chats_consumed (apply_consumption rt q b),
                          daily_chats_used := daily_chats_used (apply_consumption rt q b)\<rparr>)"
  using assms
  by (auto simp: within_quota_def apply_consumption_def positive_columns_def split: if_splits)

lemma atomic_update_invariant:
  assumes "ledger_invariant s" "unique_bundle_keys s" "0 \<le> q"
  shows "ledger_invariant (fst (atomic_update s user rt q admitted))
       \<and> unique_bundle_keys (fst (atomic_update s user rt q admitted))"
proof (cases "get_bundle s (ub_id admitted)")
  case None
  then show ?thesis using assms by (simp add: atomic_update_def)
next
  case (Some cur)
  note mem = get_bundle_SomeD[OF Some]
  let ?after = "apply_consumption rt q cur"
  show ?thesis
  proof (cases "positive_columns ?after")
    case False
    then show ?thesis using assms Some by (simp add: atomic_update_def Let_def)
  next
    case True
    let ?f = "\<lambda>row. row\<lparr>exams_remaining := exams_remaining ?after,
                            chats_remaining := chats_remaining ?after,
                            search_remaining := search_remaining ?after,
                            total_chats_consumed := total_chats_consumed ?after,
                            daily_chats_used := daily_chats_used ?after\<rparr>"
    have wq: "within_quota cur" using assms(1) mem by (simp add: ledger_invariant_def)
    have 1: "ledger_invariant (update_bundle (ub_id cur) ?f s)"
    proof (rule update_bundle_invariant[OF assms(1)])
      fix row assume r: "row \<in> set (user_bundles s)" "ub_id row = ub_id cur"
      then have "row = cur" using unique_row[OF assms(2)] mem by blast
      then show "within_quota (?f row)"
        using apply_consumption_within_quota[OF wq assms(3) True] by simp
    qed
    have 2: "unique_bundle_keys (update_bundle (ub_id cur) ?f s)"
      using assms(2) by (intro update_bundle_keys) auto
    have "ledger_invariant ((update_bundle (ub_id cur) ?f s)\<lparr>transactions := x\<rparr>)
        \<and> unique_bundle_keys ((update_bundle (ub_id cur) ?f s)\<lparr>transactions := x\<rparr>)" for x
      using 1 2 by (simp add: ledger_invariant_def unique_bundle_keys_def)
    then show ?thesis using Some True by (simp add: atomic_update_def Let_def)
  qed
qed

lemma consume_resource_invariant:
  assumes "ledger_invariant s" "unique_bundle_keys s" "0 \<le> q"
  shows "ledger_invariant (fst (consume_resource s now user rt q))
       \<and> unique_bundle_keys (fst (consume_resource s now user rt q))"
proof -
  obtain s1 a where adm: "admission_check s now user rt q = (s1, a)" by force
  with admission_check_invariant[OF assms(1,2), of now user rt q]
  have i: "ledger_invariant s1" "unique_bundle_keys s1" by simp_all
  show ?thesis
    using adm i atomic_update_invariant[OF i assms(3)]
    by (cases a) (simp_all add: consume_resource_def)
qed


lemma purchase_bundle_state: "fst (purchase_bundle s now user did pd) = s"
  by (simp add: purchase_bundle_def BundlePurchase_objects_create_def split: option.splits)

lemma UserBundle_objects_create_Some:
  assumes "UserBundle_objects_create s now user d expiry = Some (s1, row)"
  shows "user_bundles s1 = user_bundles s @ [row] \<and> next_pk s1 = Suc (next_pk s)
    \<and> ub_id row = next_pk s \<and> ub_bundle_definition row = d
    \<and> exams_remaining row = 0 \<and> chats_remaining row = 0 \<and> search_remaining row = 0
    \<and> expiry = Some (ub_expiry_date row)
    \<and> orders s1 = orders s \<and> profiles s1 = profiles s \<and> purchases s1 = purchases s
    \<and> transactions s1 = transactions s"
  using assms
  by (auto simp: UserBundle_objects_create_def UserBundle_save_def UserBundle_init_def Let_def
      split: option.splits)

lemma BundlePurchase_objects_create_Some:
  assumes "BundlePurchase_objects_create s user d opk amount st ub = Some (s1, p)"
  shows "user_bundles s1 = user_bundles s \<and> next_pk s1 = Suc (next_pk s)"
  using assms
  by (auto simp: BundlePurchase_objects_create_def Let_def split: option.splits if_splits)

lemma complete_order_bundles:
  assumes "complete_order s now oid = Some (s', ub)"
  shows "user_bundles s' = user_bundles s @ [ub] \<and> next_pk s' = Suc (Suc (next_pk s))
       \<and> ub_id ub = next_pk s
       \<and> exams_remaining ub = 0 \<and> chats_remaining ub = 0 \<and> search_remaining ub = 0"
  using assms
  by (auto simp: complete_order_def Let_def save_order_def set_active_bundle_def
      split: option.splits prod.splits
      dest!: UserBundle_objects_create_Some BundlePurchase_objects_create_Some)

lemma complete_order_invariant:
  assumes "ledger_invariant s" "unique_bundle_keys s" "complete_order s now oid = Some (s', ub)"
  shows "ledger_invariant s' \<and> unique_bundle_keys s'"
  using assms(1,2) complete_order_bundles[OF assms(3)]
  by (auto simp: ledger_invariant_def unique_bundle_keys_def within_quota_def)

lemma reset_daily_chats_invariant:
  assumes "ledger_invariant s" "unique_bundle_keys s"
  shows "ledger_invariant (fst (reset_daily_chats s now))
       \<and> unique_bundle_keys (fst (reset_daily_chats s now))"
proof -
  have ids: "map (ub_id \<circ> (\<lambda>b. if ub_is_active b \<and> last_chat_reset b < midnight now
              then b\<lparr>daily_chats_used := 0, last_chat_reset := now\<rparr> else b)) (user_bundles s)
             = map ub_id (user_bundles s)"
    by (rule map_cong) auto
  show ?thesis
    using assms
    by (auto simp: reset_daily_chats_def Let_def ledger_invariant_def unique_bundle_keys_def
        within_quota_def ids)
qed

lemma expire_one_invariant:
  assumes "ledger_invariant s" "unique_bundle_keys s"
  shows "ledger_invariant (expire_one b s) \<and> unique_bundle_keys (expire_one b s)"
proof -
  let ?s1 = "update_bundle (ub_id b) (\<lambda>row. row\<lparr>ub_is_active := False\<rparr>) s"
  have 1: "ledger_invariant ?s1"
    using assms(1) by (intro update_bundle_invariant) (auto simp: ledger_invariant_def within_quota_def)
  have 2: "unique_bundle_keys ?s1"
    using assms(2) by (intro update_bundle_keys) auto
  from 1 2 show ?thesis
    by (auto simp: expire_one_def Let_def ledger_invariant_def unique_bundle_keys_def
        set_active_bundle_def split: option.splits)
qed

lemma expire_each_invariant:
  assumes "ledger_invariant s" "unique_bundle_keys s"
  shows "ledger_invariant (expire_each bs s) \<and> unique_bundle_keys (expire_each bs s)"
  using assms
proof (induction bs arbitrary: s)
  case Nil
  then show ?case by simp
next
  case (Cons b bs)
  from expire_one_invariant[OF Cons.prems] Cons.IH show ?case by simp
qed

lemma expire_bundles_invariant:
  assumes "ledger_invariant s" "unique_bundle_keys s"
  shows "ledger_invariant (fst (expire_bundles s now))
       \<and> unique_bundle_keys (fst (expire_bundles s now))"
  using expire_each_invariant[OF assms] by (simp add: expire_bundles_def Let_def)

text \<open>
  C1, as the code has it. On a database whose bundles are within quota (and whose bundle
  keys are unique), \<open>consume_resource\<close> with a quantity that is not negative,
  \<open>purchase_bundle\<close>, \<open>complete_order\<close> (when it returns), \<open>reset_daily_chats\<close> and
  \<open>expire_bundles\<close> each return a database whose bundles are within quota again:
  for every bundle and every resource with a bounded quota Q, 0 \<le> remaining \<le> Q.
\<close>

theorem ledger_invariant_preserved:
  assumes "ledger_invariant s" and "unique_bundle_keys s" and "0 \<le> quantity"
  shows "ledger_invariant (fst (consume_resource s now user resource_type quantity))
       \<and> unique_bundle_keys (fst (consume_resource s now user resource_type quantity))
       \<and> ledger_invariant (fst (purchase_bundle s now user bundle_definition_id pd))
       \<and> unique_bundle_keys (fst (purchase_bundle s now user bundle_definition_id pd))
       \<and> (case complete_order s now order_id of
             None \<Rightarrow> True
           | Some (s', user_bundle) \<Rightarrow> ledger_invariant s' \<and> unique_bundle_keys s')
       \<and> ledger_invariant (fst (reset_daily_chats s now))
       \<and> unique_bundle_keys (fst (reset_daily_chats s now))
       \<and> ledger_invariant (fst (expire_bundles s now))
       \<and> unique_bundle_keys (fst (expire_bundles s now))"
proof -
  have "case complete_order s now order_id of
             None \<Rightarrow> True
           | Some (s', user_bundle) \<Rightarrow> ledger_invariant s' \<and> unique_bundle_keys s'"
    using complete_order_invariant[OF assms(1,2)] by (auto split: option.splits)
  then show ?thesis
    using consume_resource_invariant[OF assms] reset_daily_chats_invariant[OF assms(1,2)]
      expire_bundles_invariant[OF assms(1,2)] assms(1,2)
    by (simp add: purchase_bundle_state)
qed

lemma db0_invariant: "ledger_invariant db0 \<and> unique_bundle_keys db0"
  by (simp add: ledger_invariant_def unique_bundle_keys_def within_quota_def db0_def
      a_bundle_def basic_def)

theorem ledger_invariant_preserved_witness:
  "ledger_invariant db0 \<and> unique_bundle_keys db0 \<and> (0::int) \<le> 1
   \<and> ledger_invariant (fst (consume_resource db0 day 7 EXAM 1))
   \<and> ledger_invariant (fst (expire_bundles db0 (31 * day)))"
  using ledger_invariant_preserved[where s = db0 and quantity = 1 and user = 7
      and resource_type = EXAM and now = day]
    ledger_invariant_preserved[where s = db0 and quantity = 1 and now = "31 * day"]
    db0_invariant
  by simp

text \<open>\<open>consume_resource\<close> does not reject a negative quantity: on the scenario, with
  5 of 5 exam attempts left, consuming \<open>-1\<close> exam leaves 6, above the quota.\<close>

theorem negative_quantity_counterexample:
  "ledger_invariant db0 \<and> unique_bundle_keys db0 \<and>
   map exams_remaining (user_bundles (fst (consume_resource db0 day 7 EXAM (- 1)))) = [6] \<and>
   \<not> ledger_invariant (fst (consume_resource db0 day 7 EXAM (- 1)))"
  by (simp add: ledger_invariant_def unique_bundle_keys_def within_quota_def
      consume_resource_def admission_check_def atomic_update_def apply_consumption_def
      positive_columns_def can_use_exam_def is_unlimited_exams_def
      get_active_bundle_def has_active_bundle_def is_expired_def db0_def get_bundle_def
      a_bundle_def day_def basic_def update_bundle_def Let_def)

subsection \<open>Suggestions within a budget\<close>

lemma score_bundle_ok:
  assumes "bd_price_etb b \<noteq> 0" "budget \<noteq> 0"
  shows "\<exists>g. score_bundle budget c b = Inr g \<and> sg_bundle g = b"
  using assms by (simp add: score_bundle_def Let_def)

lemma score_all_ok:
  assumes "\<forall>b\<in>set bs. bd_price_etb b \<noteq> 0" "budget \<noteq> 0"
  shows "\<exists>gs. score_all budget c bs = Inr gs \<and> map sg_bundle gs = bs"
  using assms
proof (induction bs)
  case Nil
  then show ?case by simp
next
  case (Cons b bs)
  from Cons.prems score_bundle_ok[of b budget c]
  obtain g where g: "score_bundle budget c b = Inr g" "sg_bundle g = b" by auto
  from Cons obtain gs where gs: "score_all budget c bs = Inr gs" "map sg_bundle gs = bs"
    by auto
  show ?case using g gs by simp
qed

text \<open>
  C10. When every active definition of the catalogue has a positive price and the budget
  is positive, \<open>get_budget_suggestions\<close> returns a list (it raises no
  ZeroDivisionError) of at most 3 suggestions. Without the condition on the prices it
  can raise: with an active definition of price 0 in the catalogue and a budget of 100,
  the value-score division raises ZeroDivisionError.
\<close>

theorem get_budget_suggestions_returns:
  assumes "\<forall>d\<in>set (catalog s). bd_is_active d \<longrightarrow> 0 < bd_price_etb d" and "0 < budget"
  shows "(\<exists>gs. get_budget_suggestions s budget current_bundle = Inr gs \<and> length gs \<le> 3)
       \<and> get_budget_suggestions db_free 100 (Some premium) = Inl ZeroDivisionError"
proof
  let ?aff = "sort_key (\<lambda>d. - bd_price_etb d)
              (filter (\<lambda>d. bd_is_active d \<and> bd_price_etb d \<le> budget) (catalog s))"
  show "\<exists>gs. get_budget_suggestions s budget current_bundle = Inr gs \<and> length gs \<le> 3"
  proof (cases "?aff = []")
    case True
    then show ?thesis
      by (cases "sort_key bd_price_etb (filter bd_is_active (catalog s))")
         (simp_all add: get_budget_suggestions_def Let_def)
  next
    case False
    have "\<forall>b\<in>set ?aff. bd_price_etb b \<noteq> 0" using assms(1) by auto
    from score_all_ok[OF this, of budget current_bundle] assms(2)
    obtain gs where "score_all budget current_bundle ?aff = Inr gs" by auto
    then show ?thesis using False by (simp add: get_budget_suggestions_def Let_def)
  qed
  show "get_budget_suggestions db_free 100 (Some premium) = Inl ZeroDivisionError"
    by (simp add: get_budget_suggestions_def Let_def db_free_def db0_def free_trial_def
        basic_def premium_def gold_def score_bundle_def)
qed

theorem get_budget_suggestions_returns_witness:
  "\<exists>gs. get_budget_suggestions db_shop 500 (Some gold) = Inr gs \<and> length gs \<le> 3"
proof -
  have 1: "\<forall>d\<in>set (catalog db_shop). bd_is_active d \<longrightarrow> 0 < bd_price_etb d"
    by (simp add: db_shop_def db0_def basic_def premium_def gold_def)
  have 2: "(0::rat) < 500" by simp
  from get_budget_suggestions_returns[OF 1 2, of "Some gold"] show ?thesis by simp
qed

text \<open>The condition on the budget follows from the condition on the prices whenever the
  scorer runs: an affordable definition of positive price needs a positive budget.\<close>

lemma get_budget_suggestions_positive_prices:
  assumes "\<forall>d\<in>set (catalog s). bd_is_active d \<longrightarrow> 0 < bd_price_etb d"
  shows "\<exists>gs. get_budget_suggestions s budget current_bundle = Inr gs \<and> length gs \<le> 3"
proof -
  let ?aff = "sort_key (\<lambda>d. - bd_price_etb d)
              (filter (\<lambda>d. bd_is_active d \<and> bd_price_etb d \<le> budget) (catalog s))"
  show ?thesis
  proof (cases "?aff = []")
    case True
    then show ?thesis
      by (cases "sort_key bd_price_etb (filter bd_is_active (catalog s))")
         (simp_all add: get_budget_suggestions_def Let_def)
  next
    case False
    then obtain d where d: "d \<in> set ?aff" by (cases ?aff) auto
    with assms have "0 < bd_price_etb d" "bd_price_etb d \<le> budget" by auto
    then have b: "budget \<noteq> 0" by auto
    have "\<forall>b\<in>set ?aff. bd_price_etb b \<noteq> 0" using assms by auto
    from score_all_ok[OF this b, of current_bundle]
    obtain gs where "score_all budget current_bundle ?aff = Inr gs" by auto
    then show ?thesis using False by (simp add: get_budget_suggestions_def Let_def)
  qed
qed

subsection \<open>The insufficient-funds branch of verify_payment\<close>

lemma score_bundle_bundle:
  assumes "score_bundle budget c b = Inr g"
  shows "sg_bundle g = b"
proof -
  have "bd_price_etb b = 0 \<Longrightarrow> score_bundle budget c b = Inl ZeroDivisionError"
    by (simp add: score_bundle_def)
  moreover have "budget = 0 \<Longrightarrow> score_bundle budget c b = Inl ZeroDivisionError"
    by (simp add: score_bundle_def Let_def)
  ultimately have "bd_price_etb b \<noteq> 0" "budget \<noteq> 0"
    using assms by auto
  from score_bundle_ok[OF this, of c] assms show ?thesis by auto
qed

lemma score_all_bundles:
  assumes "score_all budget c bs = Inr gs"
  shows "map sg_bundle gs = bs"
  using assms
proof (induction bs arbitrary: gs)
  case Nil
  then show ?case by simp
next
  case (Cons b bs)
  from Cons.prems obtain g gs' where g: "score_bundle budget c b = Inr g"
    and r: "score_all budget c bs = Inr gs'" and e: "gs = g # gs'"
    by (auto split: sum.splits)
  from score_bundle_bundle[OF g] Cons.IH[OF r] e show ?case by simp
qed

text \<open>Every suggestion returned is an active definition of the catalogue, priced within
  the budget; or nothing is affordable and it is the single cheapest active definition,
  with the missing amount in its reason.\<close>

lemma get_budget_suggestions_affordable:
  assumes "get_budget_suggestions s budget c = Inr gs" and "g \<in> set gs"
  shows "sg_bundle g \<in> set (catalog s) \<and> bd_is_active (sg_bundle g)
       \<and> (bd_price_etb (sg_bundle g) \<le> budget
          \<or> ((\<forall>d\<in>set (catalog s). bd_is_active d \<longrightarrow> budget < bd_price_etb d)
              \<and> gs = [g]
              \<and> sg_reason g = CheapestAvailable (bd_price_etb (sg_bundle g) - budget)
              \<and> (\<forall>d\<in>set (catalog s). bd_is_active d
                     \<longrightarrow> bd_price_etb (sg_bundle g) \<le> bd_price_etb d)))"
proof -
  let ?aff = "sort_key (\<lambda>d. - bd_price_etb d)
              (filter (\<lambda>d. bd_is_active d \<and> bd_price_etb d \<le> budget) (catalog s))"
  let ?act = "sort_key bd_price_etb (filter bd_is_active (catalog s))"
  show ?thesis
  proof (cases "?aff = []")
    case True
    then have "length (filter (\<lambda>d. bd_is_active d \<and> bd_price_etb d \<le> budget) (catalog s)) = 0"
      by (metis length_sort list.size(3))
    then have none: "\<forall>d\<in>set (catalog s). bd_is_active d \<longrightarrow> budget < bd_price_etb d"
      by (auto simp: filter_empty_conv not_le)
    show ?thesis
    proof (cases ?act)
      case Nil
      with assms True show ?thesis by (simp add: get_budget_suggestions_def Let_def)
    next
      case (Cons cheapest rest)
      let ?g = "\<lparr>sg_bundle = cheapest,
                 sg_reason = CheapestAvailable (bd_price_etb cheapest - budget),
                 sg_score = 5 / 10,
                 sg_deficit = Some (bd_price_etb cheapest - budget),
                 sg_remaining_budget = None\<rparr>"
      from assms(1) True Cons have gs: "gs = [?g]"
        by (simp add: get_budget_suggestions_def Let_def)
      with assms(2) have g: "g = ?g" by simp
      have "sorted (map bd_price_etb ?act)" by simp
      with Cons have le: "\<forall>d\<in>set ?act. bd_price_etb cheapest \<le> bd_price_etb d"
        by auto
      have "cheapest \<in> set ?act" using Cons by simp
      then have mem: "cheapest \<in> set (catalog s)" "bd_is_active cheapest" by auto
      have sel: "sg_bundle g = cheapest"
        "sg_reason g = CheapestAvailable (bd_price_etb cheapest - budget)"
        by (simp_all add: g)
      have "gs = [g]" using gs g by simp
      then show ?thesis using none mem le by (simp add: sel)
    qed
  next
    case False
    with assms(1) obtain all where sc: "score_all budget c ?aff = Inr all"
      and gs: "gs = take 3 (sort_key (\<lambda>g. - sg_score g) all)"
      by (auto simp: get_budget_suggestions_def Let_def split: sum.splits)
    from assms(2) gs have "g \<in> set all" by (auto dest: in_set_takeD)
    then have "sg_bundle g \<in> set (map sg_bundle all)" by simp
    with score_all_bundles[OF sc] have "sg_bundle g \<in> set ?aff" by simp
    then show ?thesis by auto
  qed
qed

lemma persist_suggestions_rows:
  "\<exists>n \<le> length gs.
      suggestions (fst (persist_suggestions oid gs s))
        = suggestions s @ map (suggestion_row oid) (take n gs)
      \<and> orders (fst (persist_suggestions oid gs s)) = orders s
      \<and> catalog (fst (persist_suggestions oid gs s)) = catalog s"
proof (induction gs arbitrary: s)
  case Nil
  then show ?case by simp
next
  case (Cons g gs)
  show ?case
  proof (cases "\<exists>row \<in> set (suggestions s).
           obs_order row = oid \<and> bd_id (obs_bundle_definition row) = bd_id (sg_bundle g)")
    case True
    then have "persist_suggestions oid (g # gs) s = (s, False)" by simp
    then show ?thesis by (intro exI[of _ 0]) simp
  next
    case False
    let ?s1 = "s\<lparr>suggestions := suggestions s @ [suggestion_row oid g]\<rparr>"
    have e: "persist_suggestions oid (g # gs) s = persist_suggestions oid gs ?s1"
      by (subst persist_suggestions.simps) (simp only: False if_False)
    from Cons.IH[of ?s1] obtain n where n: "n \<le> length gs"
      "suggestions (fst (persist_suggestions oid gs ?s1))
        = suggestions ?s1 @ map (suggestion_row oid) (take n gs)"
      "orders (fst (persist_suggestions oid gs ?s1)) = orders ?s1"
      "catalog (fst (persist_suggestions oid gs ?s1)) = catalog ?s1"
      by blast
    show ?thesis
      unfolding e using n by (intro exI[of _ "Suc n"]) simp
  qed
qed

text \<open>A verified amount below the amount of a pending, unexpired order: the order is saved
  with the status \<open>INSUFFICIENT_FUNDS\<close>; every suggestion row stored for it is an
  active, affordable definition (or the single cheapest one); and the call returns
  either the error result or the insufficient-funds result with the deficit
  \<open>order_amount - amount\<close>.\<close>

lemma verify_payment_insufficient:
  assumes found: "find (\<lambda>r. bo_id r = order_id \<and> bo_status r = PENDING) (orders s) = Some order"
      and fresh: "\<not> bo_expires_at order < now"
      and via: "bo_payment_method order = Some m"
      and paid: "verifier (pm_code m) reference = \<lparr>vr_success = True, vr_amount = Some amount\<rparr>"
      and short: "amount < bo_order_amount order"
  shows "\<exists>new.
      orders (fst (verify_payment_with verifier s now order_id reference))
        = orders (save_order (order\<lparr>bo_reference_number := reference,
                                    bo_verified_amount := Some amount,
                                    bo_status := INSUFFICIENT_FUNDS\<rparr>) s)
      \<and> suggestions (fst (verify_payment_with verifier s now order_id reference))
          = suggestions s @ new
      \<and> (\<forall>row \<in> set new.
            obs_order row = order_id
            \<and> obs_bundle_definition row \<in> set (catalog s)
            \<and> bd_is_active (obs_bundle_definition row)
            \<and> (bd_price_etb (obs_bundle_definition row) \<le> amount
               \<or> ((\<forall>d\<in>set (catalog s). bd_is_active d \<longrightarrow> amount < bd_price_etb d)
                   \<and> new = [row]
                   \<and> obs_reason row
                       = CheapestAvailable (bd_price_etb (obs_bundle_definition row) - amount)
                   \<and> (\<forall>d\<in>set (catalog s). bd_is_active d \<longrightarrow>
                         bd_price_etb (obs_bundle_definition row) \<le> bd_price_etb d))))
      \<and> (snd (verify_payment_with verifier s now order_id reference) = VP_Error
         \<or> (\<exists>gs up. snd (verify_payment_with verifier s now order_id reference)
               = VP_InsufficientFunds amount (bo_order_amount order)
                   (bo_order_amount order - amount) gs up))"
proof -
  let ?order2 = "order\<lparr>bo_reference_number := reference, bo_verified_amount := Some amount,
                        bo_status := INSUFFICIENT_FUNDS\<rparr>"
  let ?s1 = "save_order ?order2 s"
  let ?res = "verify_payment_with verifier s now order_id reference"
  have oid: "bo_id order = order_id" using found by (auto simp: find_Some_iff)
  have s1: "catalog ?s1 = catalog s" "suggestions ?s1 = suggestions s"
    by (simp_all add: save_order_def)
  have unfold: "?res =
     (case get_budget_suggestions ?s1 amount (Some (bo_bundle_definition order)) of
        Inl e \<Rightarrow> (?s1, VP_Error)
      | Inr gs \<Rightarrow>
          (case persist_suggestions order_id gs ?s1 of
             (s2, False) \<Rightarrow> (s2, VP_Error)
           | (s2, True) \<Rightarrow>
               (s2, VP_InsufficientFunds amount (bo_order_amount order)
                      (bo_order_amount order - amount) gs
                      (can_upgrade_existing_bundle s2 now (bo_user order) amount))))"
    using found fresh via paid short
    by (auto simp: verify_payment_with_def Let_def oid
        split: sum.splits prod.splits bool.splits)
  show ?thesis
  proof (cases "get_budget_suggestions ?s1 amount (Some (bo_bundle_definition order))")
    case (Inl e)
    then have "?res = (?s1, VP_Error)" by (simp add: unfold)
    then show ?thesis by (intro exI[of _ "[]"]) (simp add: s1)
  next
    case (Inr gs)
    obtain s2 ok where p: "persist_suggestions order_id gs ?s1 = (s2, ok)" by force
    from persist_suggestions_rows[of gs order_id ?s1] p obtain n where
      n: "suggestions s2 = suggestions s @ map (suggestion_row order_id) (take n gs)"
         "orders s2 = orders ?s1"
      by (auto simp: s1)
    have res: "fst ?res = s2"
      "snd ?res = VP_Error \<or> snd ?res = VP_InsufficientFunds amount (bo_order_amount order)
          (bo_order_amount order - amount) gs
          (can_upgrade_existing_bundle s2 now (bo_user order) amount)"
      using Inr p by (cases ok; simp add: unfold)+
    have rows: "\<forall>row \<in> set (map (suggestion_row order_id) (take n gs)).
            obs_order row = order_id
            \<and> obs_bundle_definition row \<in> set (catalog s)
            \<and> bd_is_active (obs_bundle_definition row)
            \<and> (bd_price_etb (obs_bundle_definition row) \<le> amount
               \<or> ((\<forall>d\<in>set (catalog s). bd_is_active d \<longrightarrow> amount < bd_price_etb d)
                   \<and> map (suggestion_row order_id) (take n gs) = [row]
                   \<and> obs_reason row
                       = CheapestAvailable (bd_price_etb (obs_bundle_definition row) - amount)
                   \<and> (\<forall>d\<in>set (catalog s). bd_is_active d \<longrightarrow>
                         bd_price_etb (obs_bundle_definition row) \<le> bd_price_etb d)))"
    proof
      fix row assume "row \<in> set (map (suggestion_row order_id) (take n gs))"
      then obtain g where g: "g \<in> set (take n gs)" "row = suggestion_row order_id g" by auto
      then have "g \<in> set gs" by (auto dest: in_set_takeD)
      note a = get_budget_suggestions_affordable[OF Inr this, unfolded s1]
      show "obs_order row = order_id
            \<and> obs_bundle_definition row \<in> set (catalog s)
            \<and> bd_is_active (obs_bundle_definition row)
            \<and> (bd_price_etb (obs_bundle_definition row) \<le> amount
               \<or> ((\<forall>d\<in>set (catalog s). bd_is_active d \<longrightarrow> amount < bd_price_etb d)
                   \<and> map (suggestion_row order_id) (take n gs) = [row]
                   \<and> obs_reason row
                       = CheapestAvailable (bd_price_etb (obs_bundle_definition row) - amount)
                   \<and> (\<forall>d\<in>set (catalog s). bd_is_active d \<longrightarrow>
                         bd_price_etb (obs_bundle_definition row) \<le> bd_price_etb d)))"
      proof (cases "bd_price_etb (sg_bundle g) \<le> amount")
        case True
        with a show ?thesis by (simp add: g suggestion_row_def)
      next
        case False
        with a have one: "gs = [g]" by simp
        with g(1) have "take n gs = [g]" by (cases n) auto
        with a False show ?thesis by (simp add: g suggestion_row_def)
      qed
    qed
    show ?thesis
      using n res rows by (intro exI[of _ "map (suggestion_row order_id) (take n gs)"]) auto
  qed
qed

subsection \<open>Scenarios of the order flow, evaluated\<close>

lemmas scenario_defs = db_shop_def db_free_def db0_def basic_def premium_def gold_def
  free_trial_def telebirr_def a_bundle_def day_def hour_def last_attempt_def db_last_def

lemmas order_flow_defs = create_order_def verify_payment_def verify_payment_with_def
  mock_verify_def complete_order_def get_budget_suggestions_def score_bundle_def
  cancel_order_def accept_suggestion_def save_order_def set_active_bundle_def
  UserBundle_objects_create_def UserBundle_save_def UserBundle_init_def
  BundlePurchase_objects_create_def purchase_transaction_def suggestion_row_def
  can_upgrade_existing_bundle_def get_bundle_def is_expired_def Let_def

text \<open>
  C2, evaluated. User 7 orders the definition \<open>basic\<close> (5 exams, 20 chats, 10 searches,
  30 days, 150 ETB) and the payment of 500 ETB is verified at time \<open>hour\<close>: the order is
  completed, and the new bundle expires at \<open>hour + 30 * day\<close>, but its three balances
  are 0, not the quotas. The instance that \<open>UserBundle.objects.create\<close> saves already
  has its primary key, so the branch \<open>if not self.pk\<close> of \<open>UserBundle.save\<close>, which
  would copy the quotas, is not taken. The direct purchase through \<open>purchase_bundle\<close>
  creates no bundle at all: its \<open>BundlePurchase\<close> row has no order.
\<close>

theorem completed_order_bundle_balances:
  "(bd_exam_quota basic, bd_total_chat_quota basic, bd_search_quota basic) = (5, 20, 10)
   \<and> map (\<lambda>b. (exams_remaining b, chats_remaining b, search_remaining b, ub_expiry_date b))
       (user_bundles
          (fst (verify_payment (fst (create_order db_shop 0 7 1 1)) hour 100 ''TEST-42'')))
     = [(5, 20, 10, 30 * day), (0, 0, 0, hour + 30 * day)]
   \<and> map bo_status
       (orders (fst (verify_payment (fst (create_order db_shop 0 7 1 1)) hour 100 ''TEST-42'')))
     = [COMPLETED]
   \<and> purchase_bundle db_shop hour 7 1 \<lparr>pd_amount = None, pd_auto_complete = None\<rparr>
     = (db_shop, Inl InternalError)"
  by (simp add: scenario_defs order_flow_defs purchase_bundle_def)

text \<open>
  C4, evaluated on one interleaving. The bundle has one exam attempt left. Two calls of
  \<open>consume_resource\<close> both run their admission check (lines 53-84) before either opens
  its transaction; both are admitted. The first atomic block then succeeds and leaves 0
  attempts. The second atomic block does not check the balance again: it subtracts from
  0, the UPDATE violates the CHECK of the column, and the call returns the internal
  error, not the message of an exhausted quota.
\<close>

theorem concurrent_consumption_not_revalidated:
  "admission_check db_last day 7 EXAM 1 = (db_last, Proceed last_attempt)
   \<and> snd (atomic_update db_last 7 EXAM 1 last_attempt)
       = Inr (last_attempt\<lparr>exams_remaining := 0\<rparr>)
   \<and> atomic_update (fst (atomic_update db_last 7 EXAM 1 last_attempt)) 7 EXAM 1 last_attempt
       = (fst (atomic_update db_last 7 EXAM 1 last_attempt), Inl (InternalError, None))"
  by (simp add: scenario_defs admission_check_def atomic_update_def get_active_bundle_def
      has_active_bundle_def can_use_exam_def is_unlimited_exams_def apply_consumption_def
      positive_columns_def update_bundle_def get_bundle_def is_expired_def Let_def)

text \<open>
  C5, evaluated. User 7 orders \<open>gold\<close> (1000 ETB); the verified payment of 500 ETB is
  insufficient and suggestions are stored; the user cancels the order. \<open>accept_suggestion\<close>
  for the stored suggestion \<open>premium\<close> then takes the cancelled order to \<open>COMPLETED\<close>:
  it reads the order without any condition on its status.
\<close>

theorem cancelled_order_completed_by_accept_suggestion:
  "map bo_status
     (orders (fst (cancel_order
        (fst (verify_payment (fst (create_order db_shop 0 7 4 1)) hour 100 ''TEST-42'')) 100)))
     = [CANCELLED]
   \<and> map bo_status
       (orders (fst (accept_suggestion
          (fst (cancel_order
             (fst (verify_payment (fst (create_order db_shop 0 7 4 1)) hour 100 ''TEST-42''))
             100))
          (2 * hour) 100 2)))
     = [COMPLETED]"
  by (simp add: scenario_defs order_flow_defs)

text \<open>
  C7, evaluated. The catalogue holds an active definition of price 0. User 7 orders
  \<open>gold\<close> (1000 ETB) and a payment of 500 ETB is verified: the order is saved as
  \<open>INSUFFICIENT_FUNDS\<close>, then the scorer divides by the price 0 and raises; the call
  returns the error result, which carries no deficit, and no suggestion is stored.
\<close>

theorem insufficient_funds_with_free_definition:
  "snd (verify_payment (fst (create_order db_free 0 7 4 1)) hour 100 ''TEST-42'') = VP_Error
   \<and> map bo_status
       (orders (fst (verify_payment (fst (create_order db_free 0 7 4 1)) hour 100 ''TEST-42'')))
     = [INSUFFICIENT_FUNDS]
   \<and> suggestions (fst (verify_payment (fst (create_order db_free 0 7 4 1)) hour 100 ''TEST-42''))
     = []"
  by (simp add: scenario_defs order_flow_defs)

end
